theory Spec2Isabelle
  imports Complex_Main "HOL-Library.Code_Target_Nat"
begin

section \<open>The evaluation engine of keepaApi.ts\<close>

text \<open>
  A shallow embedding of the pure part of the Keepa module (ISBN utilities, price
  extraction, Amazon first-party presence analysis, fee calculation and the
  multiplier-based decision) and of the thresholds in config.ts.

  Conventions of the embedding.
  \<^item> A JavaScript string is a \<open>char list\<close>; a \<open>char\<close> stands for one UTF-16 code unit
    in the range 0..255. Strings with code units above 255 are outside the model.
  \<^item> A JavaScript number that holds a price, a duration or a ratio is a rational
    (\<open>rat\<close>): arithmetic is exact, the rounding of IEEE doubles is not modelled.
    Keepa's array entries (minutes, cents, ranks) are integers. A computed value can
    differ from the double in its last digits (a profit of exactly 60 against
    59.99999999999999), so no theorem concludes a decision from a profit recomputed
    from the inputs.
  \<^item> \<open>null\<close> and \<open>undefined\<close> are \<open>None\<close>; a number that may be \<open>NaN\<close> is an option
    with \<open>None\<close> for \<open>NaN\<close>.
  \<^item> \<open>Date.now()\<close> is the parameter \<open>now\<close> (milliseconds since the epoch).
\<close>

subsection \<open>ISBN utilities\<close>

text \<open>The character class \<open>[-\s]\<close> on code units below 256: hyphen, TAB, LF, VT, FF, CR,
  space and the no-break space U+00A0.\<close>

definition isSeparator :: "char \<Rightarrow> bool" where
  "isSeparator c \<longleftrightarrow> c = CHR ''-'' \<or> (of_char c :: nat) \<in> {9, 10, 11, 12, 13, 32, 160}"

text \<open>\<open>s.replace(/[-\s]/g, '')\<close>\<close>

definition stripSeparators :: "string \<Rightarrow> string" where
  "stripSeparators s = filter (\<lambda>c. \<not> isSeparator c) s"

text \<open>The class \<open>\d\<close>: the ASCII digits.\<close>

definition isDigit :: "char \<Rightarrow> bool" where
  "isDigit c \<longleftrightarrow> 48 \<le> (of_char c :: nat) \<and> (of_char c :: nat) \<le> 57"

text \<open>\<open>parseInt(s[i], 10)\<close>: the digit's value, and \<open>NaN\<close> (\<open>None\<close>) for any other
  character and for an index out of range (\<open>s[i]\<close> is \<open>undefined\<close> there).\<close>

definition parseIntAt :: "string \<Rightarrow> nat \<Rightarrow> nat option" where
  "parseIntAt s i =
     (if i < length s \<and> isDigit (s ! i) then Some ((of_char (s ! i) :: nat) - 48) else None)"

text \<open>\<open>sum += d * w\<close> on numbers that may be \<open>NaN\<close>.\<close>

definition addWeighted :: "nat option \<Rightarrow> nat option \<Rightarrow> nat \<Rightarrow> nat option" where
  "addWeighted acc d w =
     (case acc of None \<Rightarrow> None
      | Some a \<Rightarrow> (case d of None \<Rightarrow> None | Some v \<Rightarrow> Some (a + v * w)))"

text \<open>The loop \<open>for (i = 0; i < 12; i++) sum += parseInt(s[i], 10) * (i % 2 === 0 ? 1 : 3)\<close>.\<close>

definition sum13 :: "string \<Rightarrow> nat option" where
  "sum13 s = fold (\<lambda>i acc. addWeighted acc (parseIntAt s i) (if i mod 2 = 0 then 1 else 3))
                  [0..<12] (Some 0)"

text \<open>The loop \<open>for (i = 0; i < 9; i++) sum += parseInt(s[i], 10) * (10 - i)\<close>.\<close>

definition sum10 :: "string \<Rightarrow> nat option" where
  "sum10 s = fold (\<lambda>i acc. addWeighted acc (parseIntAt s i) (10 - i)) [0..<9] (Some 0)"

text \<open>Decimal rendering of a non-negative integer (\<open>toString\<close>, string concatenation).\<close>

fun numToString :: "nat \<Rightarrow> string" where
  "numToString n =
     (if n < 10 then [char_of (48 + n)]
      else numToString (n div 10) @ [char_of (48 + n mod 10)])"

declare numToString.simps [simp del]

text \<open>Rendering of a number that may be \<open>NaN\<close>.\<close>

definition numOrNaNToString :: "nat option \<Rightarrow> string" where
  "numOrNaNToString v = (case v of None \<Rightarrow> ''NaN'' | Some n \<Rightarrow> numToString n)"

text \<open>\<open>(10 - (sum % 10)) % 10\<close>\<close>

definition checkDigit13 :: "nat option \<Rightarrow> nat option" where
  "checkDigit13 acc = map_option (\<lambda>s. (10 - s mod 10) mod 10) acc"

definition isbn10to13 :: "string \<Rightarrow> string option" where
  "isbn10to13 isbn10 =
     (let clean = stripSeparators isbn10 in
      if length clean \<noteq> 10 then None
      else
        let base = ''978'' @ take 9 clean;
            checkDigit = checkDigit13 (sum13 base)
        in Some (base @ numOrNaNToString checkDigit))"

text \<open>\<open>remainder === 0 ? '0' : remainder === 1 ? 'X' : (11 - remainder).toString()\<close>;
  with a \<open>NaN\<close> remainder both tests fail and the rendering is \<open>NaN\<close>.\<close>

definition checkDigit10 :: "nat option \<Rightarrow> string" where
  "checkDigit10 acc =
     (case acc of None \<Rightarrow> ''NaN''
      | Some s \<Rightarrow>
          (let remainder = s mod 11 in
           if remainder = 0 then ''0'' else if remainder = 1 then ''X''
           else numToString (11 - remainder)))"

definition isbn13to10 :: "string \<Rightarrow> string option" where
  "isbn13to10 isbn13 =
     (let clean = stripSeparators isbn13 in
      if length clean \<noteq> 13 \<or> take 3 clean \<noteq> ''978'' then None
      else
        let base = take 9 (drop 3 clean)
        in Some (base @ checkDigit10 (sum10 base)))"

text \<open>The test \<open>/^\d+X?$/i\<close>: one or more digits, then at most one \<open>X\<close> or \<open>x\<close>.\<close>

definition matchesDigitsX :: "string \<Rightarrow> bool" where
  "matchesDigitsX s \<longleftrightarrow>
     (let body = (if s \<noteq> [] \<and> (last s = CHR ''X'' \<or> last s = CHR ''x'') then butlast s else s)
      in body \<noteq> [] \<and> list_all isDigit body)"

text \<open>\<open>toUpperCase\<close> on one character. It is applied to \<open>clean[9]\<close> after the test above
  has passed, where the character is a digit, \<open>x\<close> or \<open>X\<close>; on ASCII it maps the lower-case
  letters to the upper-case ones and nothing else.\<close>

definition toUpperCase :: "char \<Rightarrow> char" where
  "toUpperCase c =
     (if 97 \<le> (of_char c :: nat) \<and> (of_char c :: nat) \<le> 122
      then char_of ((of_char c :: nat) - 32) else c)"

record validation =
  valid :: bool
  error :: "string option"

definition validateIsbn :: "string \<Rightarrow> validation" where
  "validateIsbn isbn =
     (let clean = stripSeparators isbn in
      if clean = [] then \<lparr>valid = False, error = Some ''ISBN is empty''\<rparr>
      else if \<not> matchesDigitsX clean
        then \<lparr>valid = False, error = Some ''ISBN must contain only digits (and X for ISBN-10)''\<rparr>
      else if length clean = 10 then
        (let lastChar = toUpperCase (clean ! 9);
             total = addWeighted (sum10 clean)
                     (if lastChar = CHR ''X'' then Some 10 else parseIntAt [lastChar] 0) 1
         in if map_option (\<lambda>s. s mod 11) total \<noteq> Some 0
            then \<lparr>valid = False, error = Some ''Invalid ISBN-10 checksum''\<rparr>
            else \<lparr>valid = True, error = None\<rparr>)
      else if length clean = 13 then
        (let checkDigit = checkDigit13 (sum13 clean)
         in if checkDigit = None \<or> parseIntAt clean 12 = None \<or> checkDigit \<noteq> parseIntAt clean 12
            then \<lparr>valid = False, error = Some ''Invalid ISBN-13 checksum''\<rparr>
            else \<lparr>valid = True, error = None\<rparr>)
      else \<lparr>valid = False,
             error = Some (''ISBN must be 10 or 13 digits (got '' @ numToString (length clean) @ '')'')\<rparr>)"

subsection \<open>Configuration tables (config.ts) and Keepa constants\<close>

text \<open>The thresholds of \<open>DECISION\<close>, one constant per entry.\<close>

definition BUY_MULTIPLIER :: int where "BUY_MULTIPLIER = 6"
definition BUY_MAX_SALES_RANK :: int where "BUY_MAX_SALES_RANK = 1500000"
definition BUY_MAX_SALES_RANK_CHEAP :: int where "BUY_MAX_SALES_RANK_CHEAP = 2000000"
definition BUY_CHEAP_PRICE_THRESHOLD :: rat where "BUY_CHEAP_PRICE_THRESHOLD = 6"
definition BUY_MIN_DROPS_90 :: int where "BUY_MIN_DROPS_90 = 3"
definition BUY_HIGH_PROFIT_MIN_FBM :: rat where "BUY_HIGH_PROFIT_MIN_FBM = 60"
definition BUY_HIGH_PROFIT_MAX_RANK :: int where "BUY_HIGH_PROFIT_MAX_RANK = 1000000"
definition BUY_HIGH_PROFIT_MIN_DROPS :: int where "BUY_HIGH_PROFIT_MIN_DROPS = 10"
definition REVIEW_MULTIPLIER :: int where "REVIEW_MULTIPLIER = 4"
definition REVIEW_MAX_SALES_RANK :: int where "REVIEW_MAX_SALES_RANK = 2500000"
definition REVIEW_MIN_DROPS_90 :: int where "REVIEW_MIN_DROPS_90 = 2"
definition KNOCKOUT_MAX_SALES_RANK :: int where "KNOCKOUT_MAX_SALES_RANK = 3000000"

text \<open>The entries of \<open>FEES\<close>, in dollars.\<close>

definition REFERRAL_FEE_PERCENT :: rat where "REFERRAL_FEE_PERCENT = 15 / 100"
definition CLOSING_FEE :: rat where "CLOSING_FEE = 180 / 100"
definition FBA_FULFILLMENT_FEE :: rat where "FBA_FULFILLMENT_FEE = 350 / 100"
definition FBM_SHIPPING_COST :: rat where "FBM_SHIPPING_COST = 4"

text \<open>Indices into \<open>raw.csv\<close> and into the \<open>stats\<close> arrays.\<close>

definition CSV_AMAZON :: nat where "CSV_AMAZON = 0"
definition CSV_NEW :: nat where "CSV_NEW = 1"
definition CSV_USED :: nat where "CSV_USED = 2"
definition CSV_NEW_FBA :: nat where "CSV_NEW_FBA = 10"
definition CSV_BUY_BOX :: nat where "CSV_BUY_BOX = 18"
definition STATS_NEW :: nat where "STATS_NEW = 1"
definition STATS_USED :: nat where "STATS_USED = 2"
definition STATS_SALES_RANK :: nat where "STATS_SALES_RANK = 3"
definition STATS_NEW_FBA :: nat where "STATS_NEW_FBA = 10"

text \<open>\<open>new Date('2011-01-01').getTime()\<close>, in milliseconds.\<close>

definition KEEPA_BASE_TIME :: int where "KEEPA_BASE_TIME = 1293840000000"

subsection \<open>Data\<close>

text \<open>The fields of \<open>KeepaProductRaw\<close> that the engine reads. A history array is the flat
  sequence \<open>[time, value, time, value, ...]\<close>, times in Keepa minutes. A field name that
  occurs in two interfaces carries a prefix in one of the records (\<open>raw_asin\<close>,
  \<open>raw_binding\<close>, \<open>stats_salesRankDrops90\<close>, \<open>metrics_salesRankDrops90\<close>,
  \<open>result_amazonFlag\<close>).\<close>

record keepaStats =
  avg :: "int list option"
  avg90 :: "int list option"
  stats_salesRankDrops90 :: "int option"

record KeepaProductRaw =
  raw_asin :: string
  csv :: "int list option list option"
  stats :: "keepaStats option"
  raw_binding :: "string option"
  packageWeight :: "int option"
  itemWeight :: "int option"

record channelPrices =
  fba :: "rat option"
  newFBM :: "rat option"
  used :: "rat option"

record AmazonPrices =
  current :: channelPrices
  avg180 :: channelPrices

datatype flag = Green | Yellow | Red

record AmazonPresence =
  stockoutPercent :: "int option"
  realisticPrice :: "rat option"
  amazonFlag :: "flag option"

datatype decision = BUY | REVIEW | REJECT

text \<open>The value of a division of two finite numbers: finite, or infinite when the divisor
  is zero (\<open>NaN\<close> for \<open>0 / 0\<close>). A zero buy price is taken as \<open>+0\<close>.\<close>

datatype jsnum = Num rat | PosInf | NegInf | NaN

record EvaluationResult =
  decision :: decision
  reason :: string
  amazonPrice :: "rat option"
  fbaProfit :: "rat option"
  fbmProfit :: "rat option"
  salesRank :: "int option"
  salesRankDrops90 :: int
  asin :: string
  result_amazonFlag :: "flag option"
  weightLbs :: "rat option"
  binding :: "string option"
  multiplier :: "jsnum option"

text \<open>The number renderings of the host that the reason strings use:
  \<open>Number.prototype.toFixed\<close> and the locale-dependent \<open>toLocaleString\<close>.\<close>

record numberFormat =
  toFixed :: "jsnum \<Rightarrow> nat \<Rightarrow> string"
  toLocaleString :: "int \<Rightarrow> string"

subsection \<open>JavaScript helpers\<close>

text \<open>\<open>xs[i]\<close>, \<open>undefined\<close> out of range.\<close>

definition elemAt :: "'a list \<Rightarrow> nat \<Rightarrow> 'a option" where
  "elemAt xs i = (if i < length xs then Some (xs ! i) else None)"

text \<open>\<open>a || b\<close> on values that are a number or \<open>null\<close>: \<open>a\<close> when it is truthy.\<close>

definition truthy :: "rat option \<Rightarrow> bool" where
  "truthy a \<longleftrightarrow> (case a of None \<Rightarrow> False | Some x \<Rightarrow> x \<noteq> 0)"

definition js_or :: "rat option \<Rightarrow> rat option \<Rightarrow> rat option" where
  "js_or a b = (if truthy a then a else b)"

text \<open>\<open>Math.round\<close>: to the nearest integer, a tie upwards.\<close>

definition Math_round :: "rat \<Rightarrow> int" where
  "Math_round x = \<lfloor>x + 1 / 2\<rfloor>"

definition js_div :: "rat \<Rightarrow> rat \<Rightarrow> jsnum" where
  "js_div a b =
     (if b \<noteq> 0 then Num (a / b)
      else if 0 < a then PosInf else if a < 0 then NegInf else NaN)"

fun js_lt :: "jsnum \<Rightarrow> rat \<Rightarrow> bool" where
  "js_lt (Num a) k = (a < k)"
| "js_lt NegInf k = True"
| "js_lt PosInf k = False"
| "js_lt NaN k = False"

fun js_ge :: "jsnum \<Rightarrow> rat \<Rightarrow> bool" where
  "js_ge (Num a) k = (k \<le> a)"
| "js_ge PosInf k = True"
| "js_ge NegInf k = False"
| "js_ge NaN k = False"

text \<open>\<open>a < b\<close> on two such numbers.\<close>

fun js_less :: "jsnum \<Rightarrow> jsnum \<Rightarrow> bool" where
  "js_less (Num a) (Num b) = (a < b)"
| "js_less (Num a) PosInf = True"
| "js_less NegInf (Num b) = True"
| "js_less NegInf PosInf = True"
| "js_less _ _ = False"

text \<open>Decimal rendering of an integer in a template string.\<close>

definition intToString :: "int \<Rightarrow> string" where
  "intToString i = (if i < 0 then ''-'' @ numToString (nat (- i)) else numToString (nat i))"

text \<open>\<open>xs.join(', ')\<close>\<close>

fun joinComma :: "string list \<Rightarrow> string" where
  "joinComma [] = []"
| "joinComma [x] = x"
| "joinComma (x # y # ys) = x @ '', '' @ joinComma (y # ys)"

subsection \<open>Price extraction\<close>

text \<open>\<open>(raw.csv || [])[k]\<close>: the history array of channel \<open>k\<close>, or \<open>None\<close> when the entry is
  \<open>null\<close> or missing.\<close>

definition channel :: "KeepaProductRaw \<Rightarrow> nat \<Rightarrow> int list option" where
  "channel raw k =
     (case elemAt (case csv raw of None \<Rightarrow> [] | Some c \<Rightarrow> c) k of
        None \<Rightarrow> None | Some ch \<Rightarrow> ch)"

definition getLastPrice :: "int list option \<Rightarrow> rat option" where
  "getLastPrice c =
     (case c of None \<Rightarrow> None
      | Some xs \<Rightarrow>
          if length xs < 2 then None
          else let price = xs ! (length xs - 1)
               in if 0 < price then Some (of_int price / 100) else None)"

text \<open>\<open>if (avg[k] > 0) ... = avg[k] / 100\<close>; the comparison is false on \<open>undefined\<close>.\<close>

definition avgPrice :: "int list \<Rightarrow> nat \<Rightarrow> rat option" where
  "avgPrice xs k =
     (case elemAt xs k of None \<Rightarrow> None
      | Some v \<Rightarrow> if 0 < v then Some (of_int v / 100) else None)"

definition getAmazonPrices :: "KeepaProductRaw \<Rightarrow> AmazonPrices" where
  "getAmazonPrices raw =
     \<lparr>current = \<lparr>fba = getLastPrice (channel raw CSV_NEW_FBA),
                 newFBM = getLastPrice (channel raw CSV_NEW),
                 used = getLastPrice (channel raw CSV_USED)\<rparr>,
      avg180 =
        (case stats raw of
           None \<Rightarrow> \<lparr>fba = None, newFBM = None, used = None\<rparr>
         | Some st \<Rightarrow>
             (case avg st of
                None \<Rightarrow> \<lparr>fba = None, newFBM = None, used = None\<rparr>
              | Some a \<Rightarrow> \<lparr>fba = avgPrice a STATS_NEW_FBA,
                           newFBM = avgPrice a STATS_NEW,
                           used = avgPrice a STATS_USED\<rparr>))\<rparr>"

subsection \<open>Amazon first-party stockout analysis\<close>

text \<open>\<open>KEEPA_BASE_TIME + (t * 60 * 1000)\<close>: Keepa minutes to milliseconds since the epoch.\<close>

definition keepaTime :: "int \<Rightarrow> int" where
  "keepaTime t = KEEPA_BASE_TIME + t * 60 * 1000"

definition cutoff90Days :: "int \<Rightarrow> int" where
  "cutoff90Days now = now - 90 * 24 * 60 * 60 * 1000"

text \<open>The three accumulators of the walk.\<close>

record walkState =
  totalPeriods :: rat
  stockoutPeriods :: rat
  buyBoxWhenAmazonOut :: "rat list"

text \<open>The inner loop \<open>for (j = 0; j < buyBox.length - 2; j += 2)\<close>: the buy-box prices (in
  dollars) pushed for one stockout period, in order. The loop body runs at \<open>j\<close> exactly
  when at least three entries remain from \<open>j\<close> on.\<close>

fun buyBoxDuring :: "int \<Rightarrow> int \<Rightarrow> int list \<Rightarrow> rat list" where
  "buyBoxDuring periodStart periodEnd (bbT # bbPrice # nxt # rest) =
     (if periodStart \<le> keepaTime bbT \<and> keepaTime bbT \<le> periodEnd \<and> 0 < bbPrice
      then [of_int bbPrice / 100] else [])
     @ buyBoxDuring periodStart periodEnd (nxt # rest)"
| "buyBoxDuring periodStart periodEnd bb = []"

text \<open>One iteration of the outer loop, at the entries \<open>amazon1P[i]\<close>, \<open>amazon1P[i + 1]\<close>,
  \<open>amazon1P[i + 2]\<close>.\<close>

definition period :: "int \<Rightarrow> int list option \<Rightarrow> int \<Rightarrow> int \<Rightarrow> int \<Rightarrow> walkState \<Rightarrow> walkState" where
  "period now buyBox t price t2 st =
     (let time = keepaTime t; nextTime = keepaTime t2 in
      if nextTime < cutoff90Days now then st
      else
        let periodStart = max time (cutoff90Days now);
            periodEnd = min nextTime now;
            periodDuration = (of_int (periodEnd - periodStart) :: rat) / (60 * 1000)
        in if periodDuration \<le> 0 then st
           else
             let st1 = st\<lparr>totalPeriods := totalPeriods st + periodDuration\<rparr>
             in if price = - 1
                then st1\<lparr>stockoutPeriods := stockoutPeriods st1 + periodDuration,
                         buyBoxWhenAmazonOut := buyBoxWhenAmazonOut st1 @
                           (case buyBox of None \<Rightarrow> []
                            | Some bb \<Rightarrow>
                                if 2 \<le> length bb then buyBoxDuring periodStart periodEnd bb
                                else [])\<rparr>
                else st1)"

text \<open>The outer loop \<open>for (i = 0; i < amazon1P.length - 2; i += 2)\<close>, on the entries that
  remain from \<open>i\<close> on: it runs while at least three remain.\<close>

fun walk :: "int \<Rightarrow> int list option \<Rightarrow> int list \<Rightarrow> walkState \<Rightarrow> walkState" where
  "walk now buyBox (t # price # t2 # rest) st =
     walk now buyBox (t2 # rest) (period now buyBox t price t2 st)"
| "walk now buyBox a st = st"

text \<open>The last period, from the last data point to \<open>now\<close>.\<close>

definition lastPeriod :: "int \<Rightarrow> int list option \<Rightarrow> int list \<Rightarrow> walkState \<Rightarrow> walkState" where
  "lastPeriod now buyBox amazon1P st =
     (if 2 \<le> length amazon1P then
        let lastTime = keepaTime (amazon1P ! (length amazon1P - 2));
            lastPrice = amazon1P ! (length amazon1P - 1)
        in if lastTime < now then
             let periodStart = max lastTime (cutoff90Days now);
                 periodDuration = (of_int (now - periodStart) :: rat) / (60 * 1000)
             in if 0 < periodDuration then
                  let st1 = st\<lparr>totalPeriods := totalPeriods st + periodDuration\<rparr>
                  in if lastPrice = - 1
                     then st1\<lparr>stockoutPeriods := stockoutPeriods st1 + periodDuration,
                              buyBoxWhenAmazonOut := buyBoxWhenAmazonOut st1 @
                                (case buyBox of None \<Rightarrow> []
                                 | Some bb \<Rightarrow>
                                     if 2 \<le> length bb then
                                       (let lastBBPrice = bb ! (length bb - 1)
                                        in if 0 < lastBBPrice then [of_int lastBBPrice / 100] else [])
                                     else [])\<rparr>
                     else st1
                else st
           else st
      else st)"

text \<open>The accumulators after both parts of the walk.\<close>

definition walkHistory :: "int \<Rightarrow> int list option \<Rightarrow> int list \<Rightarrow> walkState" where
  "walkHistory now buyBox amazon1P =
     lastPeriod now buyBox amazon1P
       (walk now buyBox amazon1P
          \<lparr>totalPeriods = 0, stockoutPeriods = 0, buyBoxWhenAmazonOut = []\<rparr>)"

text \<open>The median of a non-empty list, after \<open>sort((a, b) => a - b)\<close>.\<close>

definition median :: "rat list \<Rightarrow> rat" where
  "median xs =
     (let sorted = sort xs; mid = length sorted div 2
      in if length sorted mod 2 = 0 then (sorted ! (mid - 1) + sorted ! mid) / 2
         else sorted ! mid)"

definition flagOf :: "int \<Rightarrow> flag" where
  "flagOf percent = (if 50 < percent then Green else if 20 \<le> percent then Yellow else Red)"

definition analyzeAmazonPresence :: "KeepaProductRaw \<Rightarrow> int \<Rightarrow> AmazonPresence" where
  "analyzeAmazonPresence raw now =
     (let buyBox = channel raw CSV_BUY_BOX; newThirdParty = channel raw CSV_NEW in
      case channel raw CSV_AMAZON of
        None \<Rightarrow> \<lparr>stockoutPercent = None, realisticPrice = None, amazonFlag = None\<rparr>
      | Some amazon1P \<Rightarrow>
          if length amazon1P < 2
          then \<lparr>stockoutPercent = None, realisticPrice = None, amazonFlag = None\<rparr>
          else
            let st = walkHistory now buyBox amazon1P;
                percent = (if 0 < totalPeriods st
                           then Some (Math_round (stockoutPeriods st / totalPeriods st * 100))
                           else None);
                result = \<lparr>stockoutPercent = percent, realisticPrice = None,
                           amazonFlag = map_option flagOf percent\<rparr>
            in if buyBoxWhenAmazonOut st \<noteq> []
               then result\<lparr>realisticPrice := Some (median (buyBoxWhenAmazonOut st))\<rparr>
               else if percent = Some 0 then
                 (case newThirdParty of
                    None \<Rightarrow> result
                  | Some n \<Rightarrow>
                      if 2 \<le> length n then
                        (let lastNewPrice = n ! (length n - 1)
                         in if 0 < lastNewPrice
                            then result\<lparr>realisticPrice := Some (of_int lastNewPrice / 100),
                                        amazonFlag := Some Red\<rparr>
                            else result)
                      else result)
               else result)"

subsection \<open>Sales rank, weight and fees\<close>

record rankMetrics =
  avgSalesRank :: "int option"
  metrics_salesRankDrops90 :: int

text \<open>\<open>xs && xs[k] > 0\<close> on an optional array.\<close>

definition positiveAt :: "int list option \<Rightarrow> nat \<Rightarrow> int option" where
  "positiveAt xs k =
     (case xs of None \<Rightarrow> None
      | Some a \<Rightarrow> (case elemAt a k of None \<Rightarrow> None
                   | Some v \<Rightarrow> if 0 < v then Some v else None))"

definition getSalesRankMetrics :: "KeepaProductRaw \<Rightarrow> rankMetrics" where
  "getSalesRankMetrics raw =
     (case stats raw of
        None \<Rightarrow> \<lparr>avgSalesRank = None, metrics_salesRankDrops90 = 0\<rparr>
      | Some st \<Rightarrow>
          \<lparr>avgSalesRank =
             (case positiveAt (avg st) STATS_SALES_RANK of
                Some r \<Rightarrow> Some r
              | None \<Rightarrow> positiveAt (avg90 st) STATS_SALES_RANK),
           metrics_salesRankDrops90 =
             (case stats_salesRankDrops90 st of None \<Rightarrow> 0 | Some d \<Rightarrow> d)\<rparr>)"

definition getWeightInPounds :: "KeepaProductRaw \<Rightarrow> rat option" where
  "getWeightInPounds raw =
     (case (case itemWeight raw of None \<Rightarrow> None
            | Some w \<Rightarrow> if 0 < w then Some w else None) of
        Some w \<Rightarrow> Some (of_int w / (453592 / 1000))
      | None \<Rightarrow>
          (case packageWeight raw of None \<Rightarrow> None
           | Some w \<Rightarrow> if 0 < w then Some (of_int w / (453592 / 1000)) else None))"

definition calculateFBAProfit :: "rat \<Rightarrow> rat \<Rightarrow> rat" where
  "calculateFBAProfit buyPrice sellPrice =
     (let referralFee = sellPrice * REFERRAL_FEE_PERCENT;
          totalFees = referralFee + CLOSING_FEE + FBA_FULFILLMENT_FEE
      in sellPrice - buyPrice - totalFees)"

definition calculateFBMProfit :: "rat \<Rightarrow> rat \<Rightarrow> rat" where
  "calculateFBMProfit buyPrice sellPrice =
     (let referralFee = sellPrice * REFERRAL_FEE_PERCENT;
          totalFees = referralFee + CLOSING_FEE + FBM_SHIPPING_COST
      in sellPrice - buyPrice - totalFees)"

subsection \<open>The decision\<close>

text \<open>The sell price chosen in step 2 of \<open>evaluateBook\<close>: the realistic price of the
  presence analysis when truthy, else the smaller of the 180-day average and the current
  price (each the first truthy of FBA, new, used), else whichever of the two exists.\<close>

definition sellPrice :: "AmazonPrices \<Rightarrow> AmazonPresence \<Rightarrow> rat option" where
  "sellPrice prices amazonAnalysis =
     (if truthy (realisticPrice amazonAnalysis) then realisticPrice amazonAnalysis
      else
        let avgP = js_or (js_or (fba (avg180 prices)) (newFBM (avg180 prices)))
                         (used (avg180 prices));
            currentPrice = js_or (js_or (fba (current prices)) (newFBM (current prices)))
                                 (used (current prices))
        in case (avgP, currentPrice) of
             (Some a, Some c) \<Rightarrow>
               if a \<noteq> 0 \<and> c \<noteq> 0 then Some (min a c) else js_or avgP currentPrice
           | _ \<Rightarrow> js_or avgP currentPrice)"

text \<open>\<open>`${multiplier.toFixed(1)}x | Rank: ${rank.toLocaleString()} | Drops: ${drops}`\<close>\<close>

definition metricsStr :: "numberFormat \<Rightarrow> jsnum \<Rightarrow> int \<Rightarrow> int \<Rightarrow> string" where
  "metricsStr fmt m rank drops =
     toFixed fmt m 1 @ ''x | Rank: '' @ toLocaleString fmt rank @ '' | Drops: '' @ intToString drops"

text \<open>The reason of the final \<open>REJECT\<close> branch: the failed criteria joined by commas, or the
  metrics string when the join is empty.\<close>

definition rejectReason :: "numberFormat \<Rightarrow> jsnum \<Rightarrow> int \<Rightarrow> int \<Rightarrow> string" where
  "rejectReason fmt m rank drops =
     (let failedCriteria =
            (if js_lt m (of_int REVIEW_MULTIPLIER)
             then [toFixed fmt m 1 @ ''x < '' @ intToString REVIEW_MULTIPLIER @ ''x''] else [])
          @ (if REVIEW_MAX_SALES_RANK \<le> rank
             then [''rank '' @ toLocaleString fmt rank @ '' > 2.5M''] else [])
          @ (if drops < REVIEW_MIN_DROPS_90
             then [''drops '' @ intToString drops @ '' < '' @ intToString REVIEW_MIN_DROPS_90]
             else []);
          joined = joinComma failedCriteria
      in if joined = [] then metricsStr fmt m rank drops else joined)"

definition evaluateBook :: "numberFormat \<Rightarrow> KeepaProductRaw \<Rightarrow> int \<Rightarrow> rat \<Rightarrow> EvaluationResult" where
  "evaluateBook fmt raw now buyPriceDollars =
     (let metrics = getSalesRankMetrics raw;
          result = \<lparr>decision = REJECT, reason = [], amazonPrice = None, fbaProfit = None,
                    fbmProfit = None, salesRank = avgSalesRank metrics,
                    salesRankDrops90 = metrics_salesRankDrops90 metrics,
                    asin = raw_asin raw, result_amazonFlag = None,
                    weightLbs = getWeightInPounds raw,
                    binding = (case raw_binding raw of None \<Rightarrow> None
                               | Some b \<Rightarrow> if b = [] then None else Some b),
                    multiplier = None\<rparr>
      in case avgSalesRank metrics of
           None \<Rightarrow> result\<lparr>reason := ''Unknown sales rank''\<rparr>
         | Some rank \<Rightarrow>
             if rank = 0 then result\<lparr>reason := ''Unknown sales rank''\<rparr>
             else if KNOCKOUT_MAX_SALES_RANK < rank
             then result\<lparr>reason := ''Rank '' @ toLocaleString fmt rank @ '' > 3M''\<rparr>
             else
               let prices = getAmazonPrices raw;
                   amazonAnalysis = analyzeAmazonPresence raw now;
                   result = result\<lparr>result_amazonFlag := amazonFlag amazonAnalysis\<rparr>
               in (case sellPrice prices amazonAnalysis of
                    None \<Rightarrow> result\<lparr>reason := ''No Amazon price data''\<rparr>
                  | Some amazonP \<Rightarrow>
                    if amazonP = 0 then result\<lparr>reason := ''No Amazon price data''\<rparr>
                    else
                    let m = js_div amazonP buyPriceDollars;
                        result = result\<lparr>amazonPrice := Some amazonP, multiplier := Some m\<rparr>
                    in if js_lt m (of_int REVIEW_MULTIPLIER)
                       then result\<lparr>reason := ''Multiplier '' @ toFixed fmt m 1 @ ''x < ''
                                                @ intToString REVIEW_MULTIPLIER @ ''x''\<rparr>
                       else
                         let fbm = calculateFBMProfit buyPriceDollars amazonP;
                             result = result\<lparr>fbaProfit := Some (calculateFBAProfit buyPriceDollars amazonP),
                                              fbmProfit := Some fbm\<rparr>;
                             drops = metrics_salesRankDrops90 metrics
                         in if drops = 0
                            then result\<lparr>reason := ''No sales in 90 days (drops90 = 0)''\<rparr>
                            else
                              let buyMaxRank = (if buyPriceDollars < BUY_CHEAP_PRICE_THRESHOLD
                                                then BUY_MAX_SALES_RANK_CHEAP else BUY_MAX_SALES_RANK);
                                  meetsBuy = (js_ge m (of_int BUY_MULTIPLIER) \<and> rank < buyMaxRank
                                              \<and> BUY_MIN_DROPS_90 \<le> drops);
                                  meetsReview = (js_ge m (of_int REVIEW_MULTIPLIER)
                                                 \<and> rank < REVIEW_MAX_SALES_RANK
                                                 \<and> REVIEW_MIN_DROPS_90 \<le> drops);
                                  isHighProfit = (BUY_HIGH_PROFIT_MIN_FBM \<le> fbm
                                                  \<and> rank < BUY_HIGH_PROFIT_MAX_RANK
                                                  \<and> BUY_HIGH_PROFIT_MIN_DROPS \<le> drops)
                              in if meetsBuy \<or> isHighProfit
                                 then result\<lparr>decision := BUY,
                                              reason := (if isHighProfit
                                                         then metricsStr fmt m rank drops
                                                              @ '' | HIGH_PROFIT FBM $''
                                                              @ toFixed fmt (Num fbm) 0
                                                         else metricsStr fmt m rank drops)\<rparr>
                                 else if meetsReview
                                 then result\<lparr>decision := REVIEW,
                                              reason := metricsStr fmt m rank drops\<rparr>
                                 else result\<lparr>decision := REJECT,
                                              reason := rejectReason fmt m rank drops\<rparr>))"

subsection \<open>Notions of the specification\<close>

text \<open>The value of a digit character, and the two weighted digit sums as sums over the
  positions (weights 1, 3, 1, 3, ... over the first twelve characters; weights 10 down to
  2 over the first nine).\<close>

definition digitVal :: "char \<Rightarrow> nat" where
  "digitVal c = (of_char c :: nat) - 48"

definition weightedSum13 :: "string \<Rightarrow> nat" where
  "weightedSum13 s = (\<Sum>i<12. digitVal (s ! i) * (if even i then 1 else 3))"

definition weightedSum10 :: "string \<Rightarrow> nat" where
  "weightedSum10 s = (\<Sum>i<9. digitVal (s ! i) * (10 - i))"

text \<open>The samples \<open>(time, value)\<close> of a history array.\<close>

fun samples :: "int list \<Rightarrow> (int \<times> int) list" where
  "samples (t # v # rest) = (t, v) # samples rest"
| "samples a = []"

text \<open>A well-formed time series: whole samples, in chronological order.\<close>

definition wellFormed :: "int list \<Rightarrow> bool" where
  "wellFormed a \<longleftrightarrow> even (length a) \<and> sorted (map fst (samples a))"

text \<open>The length in minutes of the interval from \<open>a\<close> to \<open>b\<close> (milliseconds) clipped to the
  trailing 90-day window that ends at \<open>now\<close>; an interval outside the window has length 0.\<close>

definition clipped :: "int \<Rightarrow> int \<Rightarrow> int \<Rightarrow> rat" where
  "clipped now a b = max 0 ((of_int (min b now - max a (cutoff90Days now)) :: rat) / (60 * 1000))"

text \<open>The observed duration of a series in the window: the sum of the clipped lengths of
  the intervals between consecutive samples and of the open interval from the last sample
  to \<open>now\<close>.\<close>

fun observedDuration :: "int \<Rightarrow> (int \<times> int) list \<Rightarrow> rat" where
  "observedDuration now [] = 0"
| "observedDuration now [(t, v)] = clipped now (keepaTime t) now"
| "observedDuration now ((t, v) # (t2, v2) # rest) =
     clipped now (keepaTime t) (keepaTime t2) + observedDuration now ((t2, v2) # rest)"

text \<open>The series reports the out-of-stock sentinel inside the window: some interval of
  positive clipped length carries the value \<open>-1\<close>.\<close>

fun sentinelInWindow :: "int \<Rightarrow> (int \<times> int) list \<Rightarrow> bool" where
  "sentinelInWindow now [] = False"
| "sentinelInWindow now [(t, v)] = (v = - 1 \<and> 0 < clipped now (keepaTime t) now)"
| "sentinelInWindow now ((t, v) # (t2, v2) # rest) =
     ((v = - 1 \<and> 0 < clipped now (keepaTime t) (keepaTime t2))
      \<or> sentinelInWindow now ((t2, v2) # rest))"

text \<open>Some sample of the series has a timestamp inside the window and the value \<open>-1\<close>.\<close>

definition sentinelSampleInWindow :: "int \<Rightarrow> (int \<times> int) list \<Rightarrow> bool" where
  "sentinelSampleInWindow now ss \<longleftrightarrow>
     list_ex (\<lambda>(t, v). v = - 1 \<and> cutoff90Days now \<le> keepaTime t \<and> keepaTime t \<le> now) ss"

text \<open>The first non-null value of a list of channel prices, in priority order.\<close>

fun firstNonNull :: "rat option list \<Rightarrow> rat option" where
  "firstNonNull [] = None"
| "firstNonNull (None # ps) = firstNonNull ps"
| "firstNonNull (Some p # ps) = Some p"

text \<open>The invariant of the walk: the stockout time is part of the total time, and buy-box
  prices are only collected together with stockout time.\<close>

definition walkInv :: "walkState \<Rightarrow> bool" where
  "walkInv st \<longleftrightarrow>
     0 \<le> stockoutPeriods st \<and> stockoutPeriods st \<le> totalPeriods st
     \<and> (stockoutPeriods st = 0 \<longrightarrow> buyBoxWhenAmazonOut st = [])"

text \<open>The history array of a list of samples.\<close>

fun flatten :: "(int \<times> int) list \<Rightarrow> int list" where
  "flatten [] = []"
| "flatten ((t, v) # rest) = t # v # flatten rest"

text \<open>The buy-box prices that the presence analysis collects during stockout periods.\<close>

definition stockoutSamples :: "KeepaProductRaw \<Rightarrow> int \<Rightarrow> rat list" where
  "stockoutSamples raw now =
     (case channel raw CSV_AMAZON of
        None \<Rightarrow> []
      | Some amazon1P \<Rightarrow>
          if length amazon1P < 2 then []
          else buyBoxWhenAmazonOut (walkHistory now (channel raw CSV_BUY_BOX) amazon1P))"

subsection \<open>A host and example snapshots\<close>

text \<open>The renderings of a host whose default locale is en-US, for numbers below
  \<open>10^21\<close>. \<open>toFixed\<close> rounds the magnitude to \<open>d\<close> decimals (a tie upwards), pads with
  zeros and keeps the sign; \<open>toLocaleString\<close> groups the digits of an integer in threes.\<close>

fun padZeros :: "nat \<Rightarrow> string \<Rightarrow> string" where
  "padZeros k s = (if length s < k then replicate (k - length s) CHR ''0'' @ s else s)"

definition toFixedRat :: "rat \<Rightarrow> nat \<Rightarrow> string" where
  "toFixedRat x d =
     (let n = nat \<lfloor>\<bar>x\<bar> * 10 ^ d + 1 / 2\<rfloor>;
          m = padZeros (d + 1) (numToString n);
          body = (if d = 0 then m
                  else take (length m - d) m @ ''.'' @ drop (length m - d) m)
      in (if x < 0 then ''-'' else []) @ body)"

fun toFixed_enUS :: "jsnum \<Rightarrow> nat \<Rightarrow> string" where
  "toFixed_enUS (Num x) d = toFixedRat x d"
| "toFixed_enUS PosInf d = ''Infinity''"
| "toFixed_enUS NegInf d = ''-Infinity''"
| "toFixed_enUS NaN d = ''NaN''"

fun groupThousands :: "string \<Rightarrow> string" where
  "groupThousands s =
     (if length s \<le> 3 then s
      else groupThousands (take (length s - 3) s) @ '','' @ drop (length s - 3) s)"

declare groupThousands.simps [simp del]

definition toLocaleString_enUS :: "int \<Rightarrow> string" where
  "toLocaleString_enUS i =
     (if i < 0 then ''-'' @ groupThousands (numToString (nat (- i)))
      else groupThousands (numToString (nat i)))"

definition enUS :: numberFormat where
  "enUS = \<lparr>toFixed = toFixed_enUS, toLocaleString = toLocaleString_enUS\<rparr>"

text \<open>An evaluation time: 2026-11-02T00:00:00Z, Keepa minute 8328960.\<close>

definition exampleNow :: int where
  "exampleNow = 1793577600000"

text \<open>A snapshot with statistics only: the averages of the channels new (index 1), sales
  rank (index 3) and new FBA (index 10), and the drop count.\<close>

definition statsOnly :: "int \<Rightarrow> int \<Rightarrow> int \<Rightarrow> int \<Rightarrow> KeepaProductRaw" where
  "statsOnly avgNew avgRank avgFba drops =
     \<lparr>raw_asin = ''B000000001'', csv = None,
      stats = Some \<lparr>avg = Some [- 1, avgNew, - 1, avgRank, - 1, - 1, - 1, - 1, - 1, - 1, avgFba],
                    avg90 = None, stats_salesRankDrops90 = Some drops\<rparr>,
      raw_binding = Some ''Hardcover'', packageWeight = None, itemWeight = Some 900\<rparr>"

text \<open>A snapshot with history arrays for the channels Amazon (index 0), new (index 1), new
  FBA (index 10) and buy box (index 18), on top of the statistics.\<close>

definition withHistory ::
  "KeepaProductRaw \<Rightarrow> int list option \<Rightarrow> int list option \<Rightarrow> int list option \<Rightarrow> int list option
     \<Rightarrow> KeepaProductRaw" where
  "withHistory raw amazon1P newThirdParty newFba buyBox =
     raw\<lparr>csv := Some ([amazon1P, newThirdParty] @ replicate 8 None @ [newFba]
                       @ replicate 7 None @ [buyBox])\<rparr>"

section \<open>Properties of the ISBN utilities\<close>

lemma isDigit_not_separator: "isDigit c \<Longrightarrow> \<not> isSeparator c"
  by (auto simp: isDigit_def isSeparator_def)

lemma stripSeparators_digits: "list_all isDigit s \<Longrightarrow> stripSeparators s = s"
  by (simp add: stripSeparators_def list_all_iff isDigit_not_separator)

lemma filter_same_length: "length (filter P xs) = length xs \<Longrightarrow> filter P xs = xs"
  by (metis filter_True length_filter_less less_irrefl_nat)

lemma numToString_digit: "n < 10 \<Longrightarrow> numToString n = [char_of (48 + n)]"
  by (simp add: numToString.simps)

lemma isDigit_char_of: "n < 10 \<Longrightarrow> isDigit (char_of (48 + n :: nat))"
  by (simp add: isDigit_def)

lemma fold_addWeighted:
  "\<forall>i\<in>set js. parseIntAt s i = Some (f i) \<Longrightarrow>
   fold (\<lambda>i acc. addWeighted acc (parseIntAt s i) (w i)) js (Some a)
     = Some (a + sum_list (map (\<lambda>i. f i * w i) js))"
  by (induction js arbitrary: a) (simp_all add: addWeighted_def add.assoc)

lemma sum13_digits:
  assumes "12 \<le> length s" "\<forall>i<12. isDigit (s ! i)"
  shows "sum13 s = Some (weightedSum13 s)"
proof -
  have "\<forall>i\<in>set [0..<12]. parseIntAt s i = Some (digitVal (s ! i))"
    using assms by (simp add: parseIntAt_def digitVal_def)
  from fold_addWeighted[OF this, of "\<lambda>i. if i mod 2 = 0 then 1 else 3" 0]
  have "sum13 s = Some (sum_list (map (\<lambda>i. digitVal (s ! i) * (if i mod 2 = 0 then 1 else 3)) [0..<12]))"
    by (simp add: sum13_def)
  also have "sum_list (map (\<lambda>i. digitVal (s ! i) * (if i mod 2 = 0 then 1 else 3)) [0..<12])
      = weightedSum13 s"
    unfolding weightedSum13_def interv_sum_list_conv_sum_set_nat
    by (rule sum.cong) (auto simp: even_iff_mod_2_eq_zero)
  finally show ?thesis .
qed

lemma sum10_digits:
  assumes "9 \<le> length s" "\<forall>i<9. isDigit (s ! i)"
  shows "sum10 s = Some (weightedSum10 s)"
proof -
  have "\<forall>i\<in>set [0..<9]. parseIntAt s i = Some (digitVal (s ! i))"
    using assms by (simp add: parseIntAt_def digitVal_def)
  from fold_addWeighted[OF this, of "\<lambda>i. 10 - i" 0]
  have "sum10 s = Some (sum_list (map (\<lambda>i. digitVal (s ! i) * (10 - i)) [0..<9]))"
    by (simp add: sum10_def)
  also have "sum_list (map (\<lambda>i. digitVal (s ! i) * (10 - i)) [0..<9]) = weightedSum10 s"
    unfolding weightedSum10_def interv_sum_list_conv_sum_set_nat
    by (rule sum.cong) auto
  finally show ?thesis .
qed

lemma weightedSum13_append: "length s = 12 \<Longrightarrow> weightedSum13 (s @ t) = weightedSum13 s"
  by (simp add: weightedSum13_def nth_append)

lemma weightedSum10_cong: "take 9 s = take 9 t \<Longrightarrow> weightedSum10 s = weightedSum10 t"
  unfolding weightedSum10_def
  by (rule sum.cong) (auto, metis nth_take)


lemma valid13_digits:
  assumes "matchesDigitsX c" "length c = 13" "parseIntAt c 12 \<noteq> None"
  shows "list_all isDigit c"
proof -
  have ne: "c \<noteq> []" using assms(2) by auto
  have "last c = c ! 12" using assms(2) ne by (simp add: last_conv_nth)
  moreover have "isDigit (c ! 12)" using assms(3) by (auto simp: parseIntAt_def split: if_splits)
  ultimately have "last c \<noteq> CHR ''X''" "last c \<noteq> CHR ''x''"
    by (auto simp: isDigit_def)
  with assms(1) show ?thesis by (simp add: matchesDigitsX_def)
qed

lemma digits_matchesDigitsX: "list_all isDigit c \<Longrightarrow> c \<noteq> [] \<Longrightarrow> matchesDigitsX c"
proof -
  assume a: "list_all isDigit c" "c \<noteq> []"
  then have "isDigit (last c)" by (simp add: list_all_iff)
  then have "last c \<noteq> CHR ''X''" "last c \<noteq> CHR ''x''" by (auto simp: isDigit_def)
  with a show ?thesis by (simp add: matchesDigitsX_def)
qed


lemma validateIsbn_13_char:
  assumes "length (stripSeparators s) = 13"
  shows "valid (validateIsbn s) \<longleftrightarrow>
           list_all isDigit (stripSeparators s) \<and>
           (10 - weightedSum13 (stripSeparators s) mod 10) mod 10 = digitVal (stripSeparators s ! 12)"
proof -
  let ?c = "stripSeparators s"
  have ne: "?c \<noteq> []" using assms by auto
  show ?thesis
  proof (cases "list_all isDigit ?c")
    case True
    then have d: "\<forall>i<13. isDigit (?c ! i)" using assms by (simp add: list_all_length)
    have s13: "sum13 ?c = Some (weightedSum13 ?c)"
      using assms d by (intro sum13_digits) auto
    have p12: "parseIntAt ?c 12 = Some (digitVal (?c ! 12))"
      using assms d by (simp add: parseIntAt_def digitVal_def)
    show ?thesis
      using True assms ne digits_matchesDigitsX[OF True ne] s13 p12
      by (auto simp: validateIsbn_def Let_def checkDigit13_def)
  next
    case False
    have "\<not> valid (validateIsbn s)"
    proof
      assume v: "valid (validateIsbn s)"
      then have "matchesDigitsX ?c" "parseIntAt ?c 12 \<noteq> None"
        using assms ne by (auto simp: validateIsbn_def Let_def split: if_splits)
      with valid13_digits[of ?c] assms False show False by simp
    qed
    with False show ?thesis by simp
  qed
qed


lemma isDigit_978: "list_all isDigit ''978''"
  by (simp add: isDigit_def)

lemma digitVal_lt10: "isDigit c \<Longrightarrow> digitVal c < 10"
  by (auto simp: isDigit_def digitVal_def)

lemma digitVal_char_of: "n < 10 \<Longrightarrow> digitVal (char_of (48 + n :: nat)) = n"
  by (simp add: digitVal_def)

lemma char_of_digitVal: "isDigit c \<Longrightarrow> char_of (48 + digitVal c) = c"
  by (simp add: digitVal_def isDigit_def)

lemma isbn10to13_digits:
  assumes "length x = 10" "list_all isDigit x"
  shows "isbn10to13 x =
           Some ((''978'' @ take 9 x) @
                 [char_of (48 + (10 - weightedSum13 (''978'' @ take 9 x) mod 10) mod 10)])"
proof -
  let ?base = "''978'' @ take 9 x"
  have all: "list_all isDigit ?base"
    using assms(2) isDigit_978 by (auto simp: list_all_iff dest: in_set_takeD)
  have len: "length ?base = 12" using assms(1) by simp
  have "\<forall>i<12. isDigit (?base ! i)" using all len by (simp only: list_all_length)
  then have "sum13 ?base = Some (weightedSum13 ?base)"
    using len by (intro sum13_digits) simp_all
  then show ?thesis
    using assms
    by (simp add: isbn10to13_def stripSeparators_digits Let_def checkDigit13_def
        numOrNaNToString_def numToString_digit)
qed


lemma valid10_shape:
  assumes "length x = 10" "valid (validateIsbn x)"
  shows "stripSeparators x = x" and "matchesDigitsX x"
proof -
  let ?c = "stripSeparators x"
  have le: "length ?c \<le> 10" using assms(1) by (simp add: stripSeparators_def flip: assms(1))
  have "length ?c = 10 \<or> length ?c = 13"
    using assms(2) by (auto simp: validateIsbn_def Let_def split: if_splits)
  with le have "length ?c = length x" using assms(1) by simp
  then show s: "?c = x" unfolding stripSeparators_def by (rule filter_same_length)
  show "matchesDigitsX x"
    using assms(2) unfolding validateIsbn_def s by (auto simp: Let_def split: if_splits)
qed

lemma matchesDigitsX_10:
  assumes "matchesDigitsX x" "length x = 10"
  shows "\<forall>i<9. isDigit (x ! i)" and "isDigit (x ! 9) \<or> x ! 9 = CHR ''X'' \<or> x ! 9 = CHR ''x''"
proof -
  have ne: "x \<noteq> []" using assms(2) by auto
  have l: "last x = x ! 9" using assms(2) ne by (simp add: last_conv_nth)
  have b: "list_all isDigit (butlast x)"
    using assms(1) ne by (auto simp: matchesDigitsX_def Let_def list_all_iff split: if_splits dest: in_set_butlastD)
  show "\<forall>i<9. isDigit (x ! i)"
    using b assms(2) by (auto simp: list_all_length nth_butlast)
  show "isDigit (x ! 9) \<or> x ! 9 = CHR ''X'' \<or> x ! 9 = CHR ''x''"
    using assms(1) ne l last_in_set[OF ne]
    by (auto simp: matchesDigitsX_def Let_def list_all_iff split: if_splits)
qed

lemma toUpperCase_digit: "isDigit c \<Longrightarrow> toUpperCase c = c"
  by (simp add: toUpperCase_def isDigit_def)

lemma toUpperCase_x: "toUpperCase CHR ''x'' = CHR ''X''" "toUpperCase CHR ''X'' = CHR ''X''"
  by code_simp+

lemma isDigit_not_X: "isDigit c \<Longrightarrow> c \<noteq> CHR ''X''"
  by (auto simp: isDigit_def)

lemma mod11_split:
  assumes "(S + v) mod 11 = (0::nat)" "v \<le> 10"
  shows "(S mod 11 = 0 \<and> v = 0) \<or> (2 \<le> S mod 11 \<and> v = 11 - S mod 11) \<or> (S mod 11 = 1 \<and> v = 10)"
proof -
  define r where "r = S mod 11"
  have r: "r < 11" by (simp add: r_def)
  have "(r + v) mod 11 = 0" using assms(1) by (simp add: r_def mod_add_left_eq)
  then have "11 dvd r + v" by (simp add: dvd_eq_mod_eq_0)
  then obtain k where k: "r + v = 11 * k" by (auto simp: dvd_def)
  with r assms(2) have "k = 0 \<or> k = 1" by linarith
  with k r assms(2) have "(r = 0 \<and> v = 0) \<or> (2 \<le> r \<and> v = 11 - r) \<or> (r = 1 \<and> v = 10)"
    by linarith
  then show ?thesis by (simp add: r_def)
qed

lemma checkDigit10_of_valid:
  assumes "isDigit c \<or> c = CHR ''X'' \<or> c = CHR ''x''"
    and "(S + (if toUpperCase c = CHR ''X'' then 10 else digitVal c)) mod 11 = 0"
  shows "checkDigit10 (Some S) = [toUpperCase c]"
proof (cases "isDigit c")
  case True
  then have u: "toUpperCase c = c" "c \<noteq> CHR ''X''" by (simp_all add: toUpperCase_digit isDigit_not_X)
  have d: "digitVal c < 10" using True by (rule digitVal_lt10)
  from assms(2) u have m: "(S + digitVal c) mod 11 = 0" by simp
  have c: "char_of (48 + digitVal c) = c" using True by (rule char_of_digitVal)
  have z: "char_of (48 :: nat) = CHR ''0''" by code_simp
  from mod11_split[OF m] d
  consider "S mod 11 = 0" "digitVal c = 0" | "2 \<le> S mod 11" "digitVal c = 11 - S mod 11"
    by fastforce
  then show ?thesis
  proof cases
    case 1
    with c z have "c = CHR ''0''" by simp
    with 1 u show ?thesis by (simp add: checkDigit10_def)
  next
    case 2
    from 2(1) have "S mod 11 \<noteq> 0" "S mod 11 \<noteq> 1" by simp_all
    moreover have "11 - S mod 11 < 10" using 2(1) by simp
    ultimately show ?thesis
      using c u 2(2) by (simp add: checkDigit10_def Let_def numToString_digit)
  qed
next
  case False
  with assms(1) have x: "toUpperCase c = CHR ''X''" by (auto simp: toUpperCase_x)
  with assms(2) have "(S + 10) mod 11 = 0" by simp
  from mod11_split[OF this] have "S mod 11 = 1" by auto
  with x show ?thesis by (simp add: checkDigit10_def)
qed


lemma round_trip_clean:
  assumes "length x = 10" "valid (validateIsbn x)"
  shows "Option.bind (isbn10to13 x) isbn13to10 = Some (take 9 x @ [toUpperCase (x ! 9)])
         \<and> (x ! 9 \<noteq> CHR ''x'' \<longrightarrow> Option.bind (isbn10to13 x) isbn13to10 = Some x)"
proof -
  note sh = valid10_shape[OF assms]
  note dg = matchesDigitsX_10[OF sh(2) assms(1)]
  let ?b9 = "take 9 x"
  let ?base = "''978'' @ ?b9"
  have b9: "list_all isDigit ?b9" "length ?b9 = 9"
    using dg(1) assms(1) by (simp_all add: list_all_length)
  have len: "length ?base = 12" using assms(1) by simp
  have "list_all isDigit ?base" using b9(1) isDigit_978 by simp
  then have allb: "\<forall>i<12. isDigit (?base ! i)"
    using len by (simp only: list_all_length)
  have s13: "sum13 ?base = Some (weightedSum13 ?base)"
    using len allb by (intro sum13_digits) simp_all
  let ?k = "(10 - weightedSum13 ?base mod 10) mod 10"
  let ?y = "?base @ [char_of (48 + ?k)]"
  have k: "?k < 10" by simp
  have y: "isbn10to13 x = Some ?y"
    using assms(1) s13 sh(1)
    by (simp add: isbn10to13_def Let_def checkDigit13_def numOrNaNToString_def numToString_digit)
  have ally: "list_all isDigit ?y"
    using b9(1) isDigit_978 isDigit_char_of[OF k] by simp
  have stripy: "stripSeparators ?y = ?y" using ally by (rule stripSeparators_digits)
  have base: "take 9 (drop 3 ?y) = ?b9" using b9(2) by simp
  have s10: "sum10 ?b9 = Some (weightedSum10 x)"
  proof -
    have "sum10 ?b9 = Some (weightedSum10 ?b9)"
      using b9 by (intro sum10_digits) (simp_all add: list_all_length)
    moreover have "weightedSum10 ?b9 = weightedSum10 x" by (rule weightedSum10_cong) simp
    ultimately show ?thesis by simp
  qed
  have s10x: "sum10 x = Some (weightedSum10 x)"
    using dg(1) assms(1) by (intro sum10_digits) simp_all
  have pl: "toUpperCase (x ! 9) \<noteq> CHR ''X'' \<Longrightarrow>
      parseIntAt [toUpperCase (x ! 9)] 0 = Some (digitVal (x ! 9))"
    using dg(2) by (auto simp: toUpperCase_x toUpperCase_digit parseIntAt_def digitVal_def)
  have chk: "(weightedSum10 x + (if toUpperCase (x ! 9) = CHR ''X'' then 10 else digitVal (x ! 9))) mod 11 = 0"
    using assms sh(2) s10x pl unfolding validateIsbn_def sh(1)
    by (auto simp: Let_def addWeighted_def split: if_splits)
  have cd: "checkDigit10 (Some (weightedSum10 x)) = [toUpperCase (x ! 9)]"
    using dg(2) chk by (rule checkDigit10_of_valid)
  have "isbn13to10 ?y = Some (?b9 @ [toUpperCase (x ! 9)])"
    unfolding isbn13to10_def stripy Let_def base s10 cd using len by simp
  with y have rt: "Option.bind (isbn10to13 x) isbn13to10 = Some (take 9 x @ [toUpperCase (x ! 9)])"
    by simp
  have up: "x ! 9 \<noteq> CHR ''x'' \<Longrightarrow> toUpperCase (x ! 9) = x ! 9"
    using dg(2) by (auto simp: toUpperCase_x toUpperCase_digit)
  have "take 9 x @ [x ! 9] = x"
  proof -
    have "take (Suc 9) x = take 9 x @ [x ! 9]"
      using assms(1) by (intro take_Suc_conv_app_nth) simp
    moreover have "take (Suc 9) x = x" using assms(1) by simp
    ultimately show ?thesis by simp
  qed
  with rt up show ?thesis by simp
qed



lemma stripSeparators_idem: "stripSeparators (stripSeparators x) = stripSeparators x"
  by (simp add: stripSeparators_def)

lemma validateIsbn_strip: "validateIsbn (stripSeparators x) = validateIsbn x"
  by (simp add: validateIsbn_def stripSeparators_idem)

lemma isbn10to13_strip: "isbn10to13 (stripSeparators x) = isbn10to13 x"
  by (simp add: isbn10to13_def stripSeparators_idem)

text \<open>
  C4 (as the code has it). For every identifier that \<open>validateIsbn\<close> accepts and that has
  10 characters once the separators are stripped, converting to the 13-digit form and back
  yields the identifier without separators and with its check character in upper case;
  the round trip returns the original whenever the identifier has no separators and does
  not end in a lower-case \<open>x\<close>.
\<close>

theorem isbn_round_trip:
  assumes "length (stripSeparators x) = 10" "valid (validateIsbn x)"
  shows "Option.bind (isbn10to13 x) isbn13to10
           = Some (take 9 (stripSeparators x) @ [toUpperCase (stripSeparators x ! 9)])
         \<and> (stripSeparators x = x \<and> x ! 9 \<noteq> CHR ''x'' \<longrightarrow>
              Option.bind (isbn10to13 x) isbn13to10 = Some x)"
proof -
  have v: "valid (validateIsbn (stripSeparators x))" using assms(2) by (simp add: validateIsbn_strip)
  from round_trip_clean[OF assms(1) v] show ?thesis
    by (auto simp: isbn10to13_strip)
qed

theorem isbn_round_trip_witness:
  "length (stripSeparators ''080442957X'') = 10 \<and> valid (validateIsbn ''080442957X'')
   \<and> stripSeparators ''080442957X'' = ''080442957X'' \<and> ''080442957X'' ! 9 \<noteq> CHR ''x''
   \<and> Option.bind (isbn10to13 ''080442957X'') isbn13to10 = Some ''080442957X''"
proof -
  have h1: "length (stripSeparators ''080442957X'') = 10" by code_simp
  have h2: "valid (validateIsbn ''080442957X'')" by code_simp
  have h3: "stripSeparators ''080442957X'' = ''080442957X''" by code_simp
  have h4: "''080442957X'' ! 9 \<noteq> CHR ''x''" by simp
  from isbn_round_trip[OF h1 h2] h1 h2 h3 h4 show ?thesis by blast
qed

text \<open>With separators, the round trip returns the identifier without them.\<close>

lemma round_trip_strips_separators:
  "valid (validateIsbn ''0-306-40615-2'')"
  "Option.bind (isbn10to13 ''0-306-40615-2'') isbn13to10 = Some ''0306406152''"
  by code_simp+

text \<open>
  C4 as stated fails: \<open>validateIsbn\<close> accepts the 10-character identifier \<open>080442957x\<close>
  (the check is case-insensitive), and the round trip returns \<open>080442957X\<close>.
\<close>

theorem isbn_round_trip_counterexample:
  "length ''080442957x'' = 10 \<and> valid (validateIsbn ''080442957x'')
   \<and> Option.bind (isbn10to13 ''080442957x'') isbn13to10 = Some ''080442957X''
   \<and> Option.bind (isbn10to13 ''080442957x'') isbn13to10 \<noteq> Some ''080442957x''"
  by code_simp

text \<open>
  C5 (as the code has it). \<open>validateIsbn\<close> accepts an identifier of 13 characters (after
  the separators are stripped) exactly when it is all digits and the check digit computed
  from the weights 1, 3, 1, 3, ... over the first twelve digits equals the last digit.
  The prefix plays no part.
\<close>

theorem validateIsbn_13_iff:
  assumes "length (stripSeparators s) = 13"
  shows "valid (validateIsbn s) \<longleftrightarrow>
           list_all isDigit (stripSeparators s) \<and>
           (10 - weightedSum13 (stripSeparators s) mod 10) mod 10 = digitVal (stripSeparators s ! 12)"
  using assms by (rule validateIsbn_13_char)

theorem validateIsbn_13_iff_witness:
  "length (stripSeparators ''978-0-306-40615-7'') = 13 \<and>
   (valid (validateIsbn ''978-0-306-40615-7'') \<longleftrightarrow>
      list_all isDigit (stripSeparators ''978-0-306-40615-7'') \<and>
      (10 - weightedSum13 (stripSeparators ''978-0-306-40615-7'') mod 10) mod 10
        = digitVal (stripSeparators ''978-0-306-40615-7'' ! 12))
   \<and> valid (validateIsbn ''978-0-306-40615-7'')"
proof -
  have h: "length (stripSeparators ''978-0-306-40615-7'') = 13" by code_simp
  have v: "valid (validateIsbn ''978-0-306-40615-7'')" by code_simp
  from validateIsbn_13_iff[OF h] h v show ?thesis by blast
qed

text \<open>
  C5 as stated fails: the 13-digit string \<open>1234567890128\<close> has a correct checksum and
  starts with neither 978 nor 979, and \<open>validateIsbn\<close> accepts it.
\<close>

theorem validateIsbn_prefix_counterexample:
  "valid (validateIsbn ''1234567890128'') \<and> length ''1234567890128'' = 13 \<and> list_all isDigit ''1234567890128''
   \<and> take 3 ''1234567890128'' \<noteq> ''978'' \<and> take 3 ''1234567890128'' \<noteq> ''979''"
  by code_simp

text \<open>
  C10. For every 10-character all-digit string, whatever its ISBN-10 checksum,
  \<open>isbn10to13\<close> returns a 13-character string that starts with 978 and that
  \<open>validateIsbn\<close> accepts.
\<close>

theorem isbn10to13_accepted:
  assumes "length x = 10" "list_all isDigit x"
  shows "\<exists>y. isbn10to13 x = Some y \<and> length y = 13 \<and> take 3 y = ''978'' \<and> valid (validateIsbn y)"
proof -
  let ?base = "''978'' @ take 9 x"
  let ?k = "(10 - weightedSum13 ?base mod 10) mod 10"
  let ?y = "?base @ [char_of (48 + ?k)]"
  have len: "length ?base = 12" using assms(1) by simp
  have k: "?k < 10" by simp
  have all: "list_all isDigit ?y"
    using assms(2) isDigit_978 isDigit_char_of[OF k]
    by (auto simp: list_all_iff dest: in_set_takeD)
  have strip: "stripSeparators ?y = ?y" using all by (rule stripSeparators_digits)
  have y12: "?y ! 12 = char_of (48 + ?k)" using len by (simp add: nth_append)
  have ws: "weightedSum13 ?y = weightedSum13 ?base" using len by (rule weightedSum13_append)
  have "length (stripSeparators ?y) = 13" using strip len by simp
  from validateIsbn_13_char[OF this] have "valid (validateIsbn ?y)"
    unfolding strip ws y12 using all digitVal_char_of[OF k] by simp
  moreover have "isbn10to13 x = Some ?y" using assms by (rule isbn10to13_digits)
  moreover have "length ?y = 13" using len by simp
  moreover have "take 3 ?y = ''978''" by simp
  ultimately show ?thesis by blast
qed


theorem isbn10to13_accepted_witness:
  "length ''0306406153'' = 10 \<and> list_all isDigit ''0306406153''
   \<and> \<not> valid (validateIsbn ''0306406153'')
   \<and> (\<exists>y. isbn10to13 ''0306406153'' = Some y \<and> length y = 13 \<and> take 3 y = ''978''
          \<and> valid (validateIsbn y))"
proof -
  have h1: "length ''0306406153'' = 10" by simp
  have h2: "list_all isDigit ''0306406153''" by code_simp
  have h3: "\<not> valid (validateIsbn ''0306406153'')" by code_simp
  from isbn10to13_accepted[OF h1 h2] h1 h2 h3 show ?thesis by blast
qed

section \<open>Properties of the presence analysis\<close>

lemma flatten_samples: "even (length a) \<Longrightarrow> flatten (samples a) = a"
  by (induction a rule: samples.induct) auto

lemma clipped_nonneg: "0 \<le> clipped now a b"
  by (simp add: clipped_def)

lemma period_total:
  "totalPeriods (period now bb t p t2 st)
     = totalPeriods st + clipped now (keepaTime t) (keepaTime t2)"
  by (auto simp: period_def clipped_def Let_def max_def min_def not_less not_le
      divide_le_0_iff zero_le_divide_iff)

lemma period_stockout:
  "stockoutPeriods (period now bb t p t2 st)
     = stockoutPeriods st + (if p = - 1 then clipped now (keepaTime t) (keepaTime t2) else 0)"
  by (auto simp: period_def clipped_def Let_def max_def min_def not_less not_le
      divide_le_0_iff zero_le_divide_iff)

lemma period_inv:
  assumes "walkInv st"
  shows "walkInv (period now bb t p t2 st)"
proof -
  define d where
    "d = (of_int (min (keepaTime t2) now - max (keepaTime t) (cutoff90Days now)) :: rat) / (60 * 1000)"
  show ?thesis
    using assms unfolding period_def Let_def d_def[symmetric]
    by (auto simp: walkInv_def)
qed

lemma walk_inv: "walkInv st \<Longrightarrow> walkInv (walk now bb a st)"
  by (induction now bb a st rule: walk.induct) (simp_all add: period_inv)

lemma lastPeriod_inv:
  assumes "walkInv st"
  shows "walkInv (lastPeriod now bb a st)"
proof -
  define d where
    "d = (of_int (now - max (keepaTime (a ! (length a - 2))) (cutoff90Days now)) :: rat) / (60 * 1000)"
  show ?thesis
    using assms unfolding lastPeriod_def Let_def d_def[symmetric]
    by (auto simp: walkInv_def)
qed

lemma walkHistory_inv: "walkInv (walkHistory now bb a)"
  unfolding walkHistory_def
  by (intro lastPeriod_inv walk_inv) (simp add: walkInv_def)

lemma lastPeriod_total:
  "2 \<le> length a \<Longrightarrow>
   totalPeriods (lastPeriod now bb a st)
     = totalPeriods st + clipped now (keepaTime (a ! (length a - 2))) now"
  by (auto simp: lastPeriod_def clipped_def Let_def max_def not_less not_le
      divide_le_0_iff zero_le_divide_iff)

lemma lastPeriod_stockout:
  "2 \<le> length a \<Longrightarrow>
   stockoutPeriods (lastPeriod now bb a st)
     = stockoutPeriods st
       + (if a ! (length a - 1) = - 1 then clipped now (keepaTime (a ! (length a - 2))) now else 0)"
  by (auto simp: lastPeriod_def clipped_def Let_def max_def not_less not_le
      divide_le_0_iff zero_le_divide_iff)

lemma lastPeriod_Cons2:
  assumes "2 \<le> length a"
  shows "lastPeriod now bb (x # y # a) st = lastPeriod now bb a st"
proof -
  have e2: "length (x # y # a) - 2 = Suc (Suc (length a - 2))"
    and e1: "length (x # y # a) - 1 = Suc (Suc (length a - 1))"
    using assms by simp_all
  have "(x # y # a) ! (length (x # y # a) - 2) = a ! (length a - 2)"
    "(x # y # a) ! (length (x # y # a) - 1) = a ! (length a - 1)"
    unfolding e2 e1 by simp_all
  moreover have "2 \<le> length (x # y # a)" by simp
  ultimately show ?thesis using assms unfolding lastPeriod_def by presburger
qed

lemma walk_total:
  "ss \<noteq> [] \<Longrightarrow>
   totalPeriods (lastPeriod now bb (flatten ss) (walk now bb (flatten ss) st))
     = totalPeriods st + observedDuration now ss"
proof (induction now ss arbitrary: st rule: observedDuration.induct)
  case (1 now)
  then show ?case by simp
next
  case (2 now t v)
  show ?case by (simp add: lastPeriod_total)
next
  case (3 now t v t2 v2 rest)
  have "lastPeriod now bb (flatten ((t, v) # (t2, v2) # rest)) =
        lastPeriod now bb (flatten ((t2, v2) # rest))"
    by (auto simp: lastPeriod_Cons2)
  then show ?case using "3.IH"[of "period now bb t v t2 st"]
    by (simp add: period_total)
qed

lemma walk_stockout_free:
  "ss \<noteq> [] \<Longrightarrow> \<not> sentinelInWindow now ss \<Longrightarrow>
   stockoutPeriods (lastPeriod now bb (flatten ss) (walk now bb (flatten ss) st))
     = stockoutPeriods st"
proof (induction now ss arbitrary: st rule: sentinelInWindow.induct)
  case (1 now)
  then show ?case by simp
next
  case (2 now t v)
  have "0 \<le> clipped now (keepaTime t) now" by (rule clipped_nonneg)
  with "2.prems" show ?case by (auto simp: lastPeriod_stockout)
next
  case (3 now t v t2 v2 rest)
  have l: "lastPeriod now bb (flatten ((t, v) # (t2, v2) # rest)) =
        lastPeriod now bb (flatten ((t2, v2) # rest))"
    by (auto simp: lastPeriod_Cons2)
  have c: "0 \<le> clipped now (keepaTime t) (keepaTime t2)" by (rule clipped_nonneg)
  from "3.prems" c have "stockoutPeriods (period now bb t v t2 st) = stockoutPeriods st"
    by (auto simp: period_stockout)
  with "3.IH"[of "period now bb t v t2 st"] "3.prems" l show ?case by simp
qed

lemma Math_round_percent:
  assumes "0 \<le> s" "s \<le> t" "0 < t"
  shows "0 \<le> Math_round (s / t * 100)" "Math_round (s / t * 100) \<le> 100"
proof -
  define q where "q = s / t"
  have a: "0 \<le> q" and b: "q \<le> 1" using assms by (simp_all add: q_def)
  have "0 \<le> q * 100 + 1 / 2" using a by linarith
  then show "0 \<le> Math_round (s / t * 100)"
    unfolding Math_round_def q_def[symmetric] by (simp only: zero_le_floor)
  have "q * 100 + 1 / 2 < of_int 100 + 1" using b by simp
  then show "Math_round (s / t * 100) \<le> 100"
    unfolding Math_round_def q_def[symmetric] by (simp only: floor_le_iff)
qed

lemma Math_round_0: "Math_round 0 = 0"
  by (simp add: Math_round_def floor_eq_iff)

lemma analyze_short:
  "channel raw CSV_AMAZON = None \<or> (\<exists>a. channel raw CSV_AMAZON = Some a \<and> length a < 2) \<Longrightarrow>
   analyzeAmazonPresence raw now
     = \<lparr>stockoutPercent = None, realisticPrice = None, amazonFlag = None\<rparr>"
  by (auto simp: analyzeAmazonPresence_def Let_def)

lemma analyze_percent:
  assumes "channel raw CSV_AMAZON = Some a" "2 \<le> length a"
  shows "stockoutPercent (analyzeAmazonPresence raw now) =
    (if 0 < totalPeriods (walkHistory now (channel raw CSV_BUY_BOX) a)
     then Some (Math_round (stockoutPeriods (walkHistory now (channel raw CSV_BUY_BOX) a)
                            / totalPeriods (walkHistory now (channel raw CSV_BUY_BOX) a) * 100))
     else None)"
  using assms by (simp add: analyzeAmazonPresence_def Let_def split: option.splits)

lemma walkHistory_total:
  assumes "even (length a)" "2 \<le> length a"
  shows "totalPeriods (walkHistory now bb a) = observedDuration now (samples a)"
proof -
  have f: "flatten (samples a) = a" using assms(1) by (rule flatten_samples)
  have "samples a \<noteq> []" using assms(2) f by (cases "samples a") auto
  from walk_total[OF this, of now bb] show ?thesis
    unfolding f walkHistory_def by simp
qed

lemma walkHistory_stockout_free:
  assumes "even (length a)" "2 \<le> length a" "\<not> sentinelInWindow now (samples a)"
  shows "stockoutPeriods (walkHistory now bb a) = 0"
proof -
  have f: "flatten (samples a) = a" using assms(1) by (rule flatten_samples)
  have "samples a \<noteq> []" using assms(2) f by (cases "samples a") auto
  from walk_stockout_free[OF this assms(3), of bb] show ?thesis
    unfolding f walkHistory_def by simp
qed

lemma observedDuration_nonneg: "0 \<le> observedDuration now ss"
  by (induction now ss rule: observedDuration.induct) (simp_all add: clipped_nonneg)


text \<open>
  C3. For every well-formed first-party time series, the stockout percentage that
  \<open>analyzeAmazonPresence\<close> returns is an integer between 0 and 100 whenever the observed
  duration of the series in the trailing 90-day window is positive, and is null whenever
  that duration is zero.
\<close>

theorem stockoutPercent_range:
  assumes "channel raw CSV_AMAZON = Some a" "wellFormed a"
  shows "(0 < observedDuration now (samples a) \<longrightarrow>
           (\<exists>p. stockoutPercent (analyzeAmazonPresence raw now) = Some p \<and> 0 \<le> p \<and> p \<le> 100))
       \<and> (observedDuration now (samples a) = 0 \<longrightarrow>
           stockoutPercent (analyzeAmazonPresence raw now) = None)"
proof (cases "length a < 2")
  case True
  then have "length a = 0 \<or> length a = 1" by linarith
  with assms(2) have "a = []" by (auto simp: wellFormed_def)
  then have "observedDuration now (samples a) = 0" by simp
  moreover have "stockoutPercent (analyzeAmazonPresence raw now) = None"
    using assms(1) True by (simp add: analyze_short)
  ultimately show ?thesis by simp
next
  case False
  then have l: "2 \<le> length a" by simp
  have e: "even (length a)" using assms(2) by (simp add: wellFormed_def)
  let ?st = "walkHistory now (channel raw CSV_BUY_BOX) a"
  have t: "totalPeriods ?st = observedDuration now (samples a)" using e l by (rule walkHistory_total)
  have i: "0 \<le> stockoutPeriods ?st" "stockoutPeriods ?st \<le> totalPeriods ?st"
    using walkHistory_inv[of now "channel raw CSV_BUY_BOX" a] by (simp_all add: walkInv_def)
  show ?thesis
    unfolding analyze_percent[OF assms(1) l] t[symmetric]
    using Math_round_percent[OF i] by simp
qed

theorem stockoutPercent_range_witness:
  "channel (withHistory (statsOnly 2200 500000 5000 12)
              (Some [8300000, 1500, 8320000, - 1, 8330000, 1400]) (Some [8300000, 2500]) None
              (Some [8310000, 2000, 8321000, 2200, 8325000, 2400, 8331000, 2100])) CSV_AMAZON
     = Some [8300000, 1500, 8320000, - 1, 8330000, 1400]
   \<and> wellFormed [8300000, 1500, 8320000, - 1, 8330000, 1400]
   \<and> 0 < observedDuration exampleNow (samples [8300000, 1500, 8320000, - 1, 8330000, 1400])
   \<and> stockoutPercent (analyzeAmazonPresence (withHistory (statsOnly 2200 500000 5000 12)
              (Some [8300000, 1500, 8320000, - 1, 8330000, 1400]) (Some [8300000, 2500]) None
              (Some [8310000, 2000, 8321000, 2200, 8325000, 2400, 8331000, 2100])) exampleNow)
       = Some 31
   \<and> channel (withHistory (statsOnly 2200 500000 5000 12)
              (Some [8400000, 1500]) (Some [8300000, 2500]) None None) CSV_AMAZON
     = Some [8400000, 1500]
   \<and> wellFormed [8400000, 1500]
   \<and> observedDuration exampleNow (samples [8400000, 1500]) = 0
   \<and> stockoutPercent (analyzeAmazonPresence (withHistory (statsOnly 2200 500000 5000 12)
              (Some [8400000, 1500]) (Some [8300000, 2500]) None None) exampleNow)
       = None"
proof -
  let ?a = "[8300000, 1500, 8320000, - 1, 8330000, 1400] :: int list"
  let ?raw = "withHistory (statsOnly 2200 500000 5000 12) (Some ?a) (Some [8300000, 2500]) None
              (Some [8310000, 2000, 8321000, 2200, 8325000, 2400, 8331000, 2100])"
  let ?b = "[8400000, 1500] :: int list"
  let ?rawb = "withHistory (statsOnly 2200 500000 5000 12) (Some ?b) (Some [8300000, 2500]) None None"
  have a1: "channel ?raw CSV_AMAZON = Some ?a" by code_simp
  have a2: "wellFormed ?a" by code_simp
  have a3: "0 < observedDuration exampleNow (samples ?a)" by code_simp
  have a4: "stockoutPercent (analyzeAmazonPresence ?raw exampleNow) = Some 31" by code_simp
  have b1: "channel ?rawb CSV_AMAZON = Some ?b" by code_simp
  have b2: "wellFormed ?b" by code_simp
  have b3: "observedDuration exampleNow (samples ?b) = 0" by code_simp
  from stockoutPercent_range[OF b1 b2, of exampleNow] b3
  have b4: "stockoutPercent (analyzeAmazonPresence ?rawb exampleNow) = None" by blast
  from stockoutPercent_range[OF a1 a2, of exampleNow] a3 a4
  have "\<exists>p. stockoutPercent (analyzeAmazonPresence ?raw exampleNow) = Some p \<and> 0 \<le> p \<and> p \<le> 100"
    by blast
  with a1 a2 a3 a4 b1 b2 b3 b4 show ?thesis by blast
qed


lemma analyze_no_samples:
  assumes "channel raw CSV_AMAZON = Some a" "2 \<le> length a"
    and "buyBoxWhenAmazonOut (walkHistory now (channel raw CSV_BUY_BOX) a) = []"
  shows "realisticPrice (analyzeAmazonPresence raw now) =
           (if stockoutPercent (analyzeAmazonPresence raw now) = Some 0
            then getLastPrice (channel raw CSV_NEW) else None)"
    and "amazonFlag (analyzeAmazonPresence raw now) =
           (if stockoutPercent (analyzeAmazonPresence raw now) = Some 0
            then Some Red
            else map_option flagOf (stockoutPercent (analyzeAmazonPresence raw now)))"
  using assms
  by (auto simp: analyzeAmazonPresence_def Let_def getLastPrice_def flagOf_def split: option.splits)

lemma stockoutSamples_long:
  "channel raw CSV_AMAZON = Some a \<Longrightarrow> 2 \<le> length a \<Longrightarrow>
   stockoutSamples raw now = buyBoxWhenAmazonOut (walkHistory now (channel raw CSV_BUY_BOX) a)"
  by (simp add: stockoutSamples_def)


text \<open>
  C8 (as the code has it). If no interval of the first-party series (an array of whole
  samples) that carries the sentinel \<open>-1\<close> overlaps the trailing window with positive
  length, and the series has positive observed duration there, then the stockout
  percentage is 0, no buy-box price is collected, the realistic price is the current
  third-party-new price and the flag is red.
\<close>

theorem always_in_stock:
  assumes "channel raw CSV_AMAZON = Some a" "even (length a)"
    and "\<not> sentinelInWindow now (samples a)" "0 < observedDuration now (samples a)"
  shows "stockoutPercent (analyzeAmazonPresence raw now) = Some 0
       \<and> stockoutSamples raw now = []
       \<and> realisticPrice (analyzeAmazonPresence raw now) = getLastPrice (channel raw CSV_NEW)
       \<and> amazonFlag (analyzeAmazonPresence raw now) = Some Red"
proof -
  have e: "even (length a)" using assms(2) .
  have l: "2 \<le> length a"
  proof (rule ccontr)
    assume "\<not> 2 \<le> length a"
    then have "length a = 0 \<or> length a = 1" by linarith
    with e have "a = []" by auto
    with assms(4) show False by simp
  qed
  let ?st = "walkHistory now (channel raw CSV_BUY_BOX) a"
  have t: "0 < totalPeriods ?st" using walkHistory_total[OF e l] assms(4) by simp
  have s: "stockoutPeriods ?st = 0" using e l assms(3) by (rule walkHistory_stockout_free)
  have b: "buyBoxWhenAmazonOut ?st = []"
    using walkHistory_inv[of now "channel raw CSV_BUY_BOX" a] s by (simp add: walkInv_def)
  have p: "stockoutPercent (analyzeAmazonPresence raw now) = Some 0"
    using t s by (simp add: analyze_percent[OF assms(1) l] Math_round_0)
  show ?thesis
    using p b analyze_no_samples[OF assms(1) l b] stockoutSamples_long[OF assms(1) l]
    by simp
qed


theorem always_in_stock_witness:
  "channel (withHistory (statsOnly 2200 500000 5000 12)
              (Some [8100000, - 1, 8190000, 1450]) (Some [8300000, 2500]) None
              (Some [8310000, 2000, 8321000, 2200])) CSV_AMAZON
     = Some [8100000, - 1, 8190000, 1450]
   \<and> even (length [8100000, - 1, 8190000, 1450 :: int])
   \<and> \<not> sentinelInWindow exampleNow (samples [8100000, - 1, 8190000, 1450])
   \<and> 0 < observedDuration exampleNow (samples [8100000, - 1, 8190000, 1450])
   \<and> getLastPrice (channel (withHistory (statsOnly 2200 500000 5000 12)
              (Some [8100000, - 1, 8190000, 1450]) (Some [8300000, 2500]) None
              (Some [8310000, 2000, 8321000, 2200])) CSV_NEW) = Some 25
   \<and> stockoutPercent (analyzeAmazonPresence (withHistory (statsOnly 2200 500000 5000 12)
              (Some [8100000, - 1, 8190000, 1450]) (Some [8300000, 2500]) None
              (Some [8310000, 2000, 8321000, 2200])) exampleNow) = Some 0
   \<and> realisticPrice (analyzeAmazonPresence (withHistory (statsOnly 2200 500000 5000 12)
              (Some [8100000, - 1, 8190000, 1450]) (Some [8300000, 2500]) None
              (Some [8310000, 2000, 8321000, 2200])) exampleNow) = Some 25
   \<and> amazonFlag (analyzeAmazonPresence (withHistory (statsOnly 2200 500000 5000 12)
              (Some [8100000, - 1, 8190000, 1450]) (Some [8300000, 2500]) None
              (Some [8310000, 2000, 8321000, 2200])) exampleNow) = Some Red"
proof -
  let ?a = "[8100000, - 1, 8190000, 1450] :: int list"
  let ?raw = "withHistory (statsOnly 2200 500000 5000 12) (Some ?a) (Some [8300000, 2500]) None
              (Some [8310000, 2000, 8321000, 2200])"
  have h1: "channel ?raw CSV_AMAZON = Some ?a" by code_simp
  have h2: "even (length ?a)" by code_simp
  have h3: "\<not> sentinelInWindow exampleNow (samples ?a)" by code_simp
  have h4: "0 < observedDuration exampleNow (samples ?a)" by code_simp
  have p: "getLastPrice (channel ?raw CSV_NEW) = Some 25" by code_simp
  from always_in_stock[OF h1 h2 h3 h4] h1 h2 h3 h4 p show ?thesis by simp
qed


text \<open>
  C8 as stated fails. In the series below the only sentinel sample lies 69 days before the
  window and the only sample inside the window has the value 1500, yet the interval of the
  sentinel sample is clipped into the window: 100640 of 129600 minutes are stockout time,
  the percentage is 78, the flag green, and without collected buy-box prices the realistic
  price is null although the third-party-new channel has a current price.
\<close>

theorem sentinel_before_window_counterexample:
  "channel (withHistory (statsOnly 2200 500000 5000 12)
              (Some [8100000, - 1, 8300000, 1500]) (Some [8300000, 2500]) None None) CSV_AMAZON
     = Some [8100000, - 1, 8300000, 1500]
   \<and> wellFormed [8100000, - 1, 8300000, 1500]
   \<and> \<not> sentinelSampleInWindow exampleNow (samples [8100000, - 1, 8300000, 1500])
   \<and> 0 < observedDuration exampleNow (samples [8100000, - 1, 8300000, 1500])
   \<and> stockoutSamples (withHistory (statsOnly 2200 500000 5000 12)
              (Some [8100000, - 1, 8300000, 1500]) (Some [8300000, 2500]) None None) exampleNow = []
   \<and> getLastPrice (channel (withHistory (statsOnly 2200 500000 5000 12)
              (Some [8100000, - 1, 8300000, 1500]) (Some [8300000, 2500]) None None) CSV_NEW) = Some 25
   \<and> analyzeAmazonPresence (withHistory (statsOnly 2200 500000 5000 12)
              (Some [8100000, - 1, 8300000, 1500]) (Some [8300000, 2500]) None None) exampleNow
       = \<lparr>stockoutPercent = Some 78, realisticPrice = None, amazonFlag = Some Green\<rparr>"
  by code_simp

text \<open>
  C9 (as the code has it). When the first-party array is absent or has fewer than two
  entries (not one whole sample), all three results are null. In every case a null
  stockout percentage comes with a null realistic price and a null flag, and a realistic
  price obtained without any collected buy-box price is the current third-party-new price
  at a stockout percentage of exactly 0.
\<close>

theorem no_history_all_null:
  "(channel raw CSV_AMAZON = None \<or> (\<exists>a. channel raw CSV_AMAZON = Some a \<and> length a < 2) \<longrightarrow>
      analyzeAmazonPresence raw now
        = \<lparr>stockoutPercent = None, realisticPrice = None, amazonFlag = None\<rparr>)
   \<and> (stockoutPercent (analyzeAmazonPresence raw now) = None \<longrightarrow>
        realisticPrice (analyzeAmazonPresence raw now) = None
        \<and> amazonFlag (analyzeAmazonPresence raw now) = None)
   \<and> (stockoutSamples raw now = [] \<and> realisticPrice (analyzeAmazonPresence raw now) \<noteq> None \<longrightarrow>
        stockoutPercent (analyzeAmazonPresence raw now) = Some 0
        \<and> realisticPrice (analyzeAmazonPresence raw now) = getLastPrice (channel raw CSV_NEW))"
proof -
  let ?r = "analyzeAmazonPresence raw now"
  consider (short) "channel raw CSV_AMAZON = None \<or> (\<exists>a. channel raw CSV_AMAZON = Some a \<and> length a < 2)"
    | (long) a where "channel raw CSV_AMAZON = Some a" "2 \<le> length a"
    by (cases "channel raw CSV_AMAZON") (auto simp: not_less[symmetric])
  then show ?thesis
  proof cases
    case short
    then show ?thesis by (simp add: analyze_short)
  next
    case long
    let ?st = "walkHistory now (channel raw CSV_BUY_BOX) a"
    note inv = walkHistory_inv[of now "channel raw CSV_BUY_BOX" a]
    have 1: "channel raw CSV_AMAZON = None \<or> (\<exists>a. channel raw CSV_AMAZON = Some a \<and> length a < 2) \<longrightarrow>
      ?r = \<lparr>stockoutPercent = None, realisticPrice = None, amazonFlag = None\<rparr>"
      using long by auto
    have 2: "stockoutPercent ?r = None \<longrightarrow> realisticPrice ?r = None \<and> amazonFlag ?r = None"
    proof
      assume n: "stockoutPercent ?r = None"
      then have "\<not> 0 < totalPeriods ?st"
        by (simp add: analyze_percent[OF long] split: if_splits)
      with inv have "stockoutPeriods ?st = 0" by (simp add: walkInv_def)
      with inv have b: "buyBoxWhenAmazonOut ?st = []" by (simp add: walkInv_def)
      from analyze_no_samples[OF long b] n
      show "realisticPrice ?r = None \<and> amazonFlag ?r = None" by simp
    qed
    have 3: "stockoutSamples raw now = [] \<and> realisticPrice ?r \<noteq> None \<longrightarrow>
        stockoutPercent ?r = Some 0 \<and> realisticPrice ?r = getLastPrice (channel raw CSV_NEW)"
    proof
      assume h: "stockoutSamples raw now = [] \<and> realisticPrice ?r \<noteq> None"
      then have b: "buyBoxWhenAmazonOut ?st = []" by (simp add: stockoutSamples_long[OF long])
      from analyze_no_samples(1)[OF long b] h
      show "stockoutPercent ?r = Some 0 \<and> realisticPrice ?r = getLastPrice (channel raw CSV_NEW)"
        by (simp split: if_splits)
    qed
    from 1 2 3 show ?thesis by blast
  qed
qed

theorem no_history_all_null_witness:
  "channel (statsOnly 2200 500000 5000 12) CSV_AMAZON = None
   \<and> analyzeAmazonPresence (statsOnly 2200 500000 5000 12) exampleNow
       = \<lparr>stockoutPercent = None, realisticPrice = None, amazonFlag = None\<rparr>
   \<and> channel (withHistory (statsOnly 2200 500000 5000 12) (Some [8300000]) (Some [8300000, 2500])
                None None) CSV_AMAZON = Some [8300000]
   \<and> length [8300000 :: int] < 2
   \<and> getLastPrice (channel (withHistory (statsOnly 2200 500000 5000 12) (Some [8300000])
                (Some [8300000, 2500]) None None) CSV_NEW) = Some 25
   \<and> analyzeAmazonPresence (withHistory (statsOnly 2200 500000 5000 12) (Some [8300000])
                (Some [8300000, 2500]) None None) exampleNow
       = \<lparr>stockoutPercent = None, realisticPrice = None, amazonFlag = None\<rparr>
   \<and> stockoutSamples (withHistory (statsOnly 2200 500000 5000 12)
              (Some [8300000, 1500, 8320000, 1450]) (Some [8300000, 2500]) None None) exampleNow = []
   \<and> realisticPrice (analyzeAmazonPresence (withHistory (statsOnly 2200 500000 5000 12)
              (Some [8300000, 1500, 8320000, 1450]) (Some [8300000, 2500]) None None) exampleNow) \<noteq> None
   \<and> stockoutPercent (analyzeAmazonPresence (withHistory (statsOnly 2200 500000 5000 12)
              (Some [8300000, 1500, 8320000, 1450]) (Some [8300000, 2500]) None None) exampleNow) = Some 0"
proof -
  let ?r0 = "statsOnly 2200 500000 5000 12"
  let ?r1 = "withHistory ?r0 (Some [8300000]) (Some [8300000, 2500]) None None"
  let ?r2 = "withHistory ?r0 (Some [8300000, 1500, 8320000, 1450]) (Some [8300000, 2500]) None None"
  have a: "channel ?r0 CSV_AMAZON = None" by code_simp
  have b: "channel ?r1 CSV_AMAZON = Some [8300000]" "length [8300000 :: int] < 2" by code_simp+
  then have b': "channel ?r1 CSV_AMAZON = None \<or> (\<exists>a. channel ?r1 CSV_AMAZON = Some a \<and> length a < 2)"
    by blast
  have p: "getLastPrice (channel ?r1 CSV_NEW) = Some 25" by code_simp
  have c: "stockoutSamples ?r2 exampleNow = []" by code_simp
  have d: "realisticPrice (analyzeAmazonPresence ?r2 exampleNow) \<noteq> None" by code_simp
  from no_history_all_null[of ?r0 exampleNow] a
  have A: "analyzeAmazonPresence ?r0 exampleNow
       = \<lparr>stockoutPercent = None, realisticPrice = None, amazonFlag = None\<rparr>" by blast
  from no_history_all_null[of ?r1 exampleNow] b'
  have B: "analyzeAmazonPresence ?r1 exampleNow
       = \<lparr>stockoutPercent = None, realisticPrice = None, amazonFlag = None\<rparr>" by blast
  from no_history_all_null[of ?r2 exampleNow] c d
  have C: "stockoutPercent (analyzeAmazonPresence ?r2 exampleNow) = Some 0" by blast
  from a A b p B c d C show ?thesis by blast
qed


text \<open>
  C9 as stated fails: a first-party series of one sample is fewer than two samples, and
  it is analysed through its open last interval: the stockout percentage is 0, not null,
  and the third-party-new fallback fires.
\<close>

theorem one_sample_counterexample:
  "length (samples [8300000, 1500]) < 2
   \<and> channel (withHistory (statsOnly 2200 500000 5000 12) (Some [8300000, 1500])
                (Some [8300000, 2500]) None None) CSV_AMAZON = Some [8300000, 1500]
   \<and> analyzeAmazonPresence (withHistory (statsOnly 2200 500000 5000 12) (Some [8300000, 1500])
                (Some [8300000, 2500]) None None) exampleNow
       = \<lparr>stockoutPercent = Some 0, realisticPrice = Some 25, amazonFlag = Some Red\<rparr>"
  by code_simp

section \<open>Properties of the decision\<close>

lemma positiveAt_pos: "positiveAt xs k = Some v \<Longrightarrow> 0 < v"
  by (auto simp: positiveAt_def split: option.splits if_splits)

lemma avgSalesRank_pos: "avgSalesRank (getSalesRankMetrics raw) = Some r \<Longrightarrow> 0 < r"
  by (auto simp: getSalesRankMetrics_def split: option.splits dest: positiveAt_pos)

lemma evaluateBook_metrics:
  "salesRank (evaluateBook fmt raw now b) = avgSalesRank (getSalesRankMetrics raw)"
  "salesRankDrops90 (evaluateBook fmt raw now b) = metrics_salesRankDrops90 (getSalesRankMetrics raw)"
  by (simp_all add: evaluateBook_def Let_def split: option.splits)

lemma evaluateBook_unknown_rank:
  assumes "avgSalesRank (getSalesRankMetrics raw) = None"
  shows "decision (evaluateBook fmt raw now b) = REJECT"
    "reason (evaluateBook fmt raw now b) = ''Unknown sales rank''"
    "multiplier (evaluateBook fmt raw now b) = None"
    "amazonPrice (evaluateBook fmt raw now b) = None"
  using assms by (simp_all add: evaluateBook_def Let_def)

lemma evaluateBook_rank_knockout:
  assumes "avgSalesRank (getSalesRankMetrics raw) = Some rank" "KNOCKOUT_MAX_SALES_RANK < rank"
  shows "decision (evaluateBook fmt raw now b) = REJECT"
    "reason (evaluateBook fmt raw now b) = ''Rank '' @ toLocaleString fmt rank @ '' > 3M''"
    "multiplier (evaluateBook fmt raw now b) = None"
    "amazonPrice (evaluateBook fmt raw now b) = None"
  using assms avgSalesRank_pos[OF assms(1)] by (simp_all add: evaluateBook_def Let_def)

lemma evaluateBook_no_price:
  assumes "avgSalesRank (getSalesRankMetrics raw) = Some rank" "rank \<le> KNOCKOUT_MAX_SALES_RANK"
    and "\<not> truthy (sellPrice (getAmazonPrices raw) (analyzeAmazonPresence raw now))"
  shows "decision (evaluateBook fmt raw now b) = REJECT"
    "reason (evaluateBook fmt raw now b) = ''No Amazon price data''"
    "multiplier (evaluateBook fmt raw now b) = None"
    "amazonPrice (evaluateBook fmt raw now b) = None"
  using assms avgSalesRank_pos[OF assms(1)]
  by (simp_all add: evaluateBook_def Let_def truthy_def split: option.splits)

lemma evaluateBook_priced:
  assumes "avgSalesRank (getSalesRankMetrics raw) = Some rank" "rank \<le> KNOCKOUT_MAX_SALES_RANK"
    and "sellPrice (getAmazonPrices raw) (analyzeAmazonPresence raw now) = Some s" "s \<noteq> 0"
  shows "amazonPrice (evaluateBook fmt raw now b) = Some s"
    "multiplier (evaluateBook fmt raw now b) = Some (js_div s b)"
    "decision (evaluateBook fmt raw now b) =
       (let m = js_div s b; drops = metrics_salesRankDrops90 (getSalesRankMetrics raw) in
        if js_lt m (of_int REVIEW_MULTIPLIER) \<or> drops = 0 then REJECT
        else if (js_ge m (of_int BUY_MULTIPLIER)
                 \<and> rank < (if b < BUY_CHEAP_PRICE_THRESHOLD then BUY_MAX_SALES_RANK_CHEAP
                            else BUY_MAX_SALES_RANK)
                 \<and> BUY_MIN_DROPS_90 \<le> drops)
                \<or> (BUY_HIGH_PROFIT_MIN_FBM \<le> calculateFBMProfit b s
                    \<and> rank < BUY_HIGH_PROFIT_MAX_RANK \<and> BUY_HIGH_PROFIT_MIN_DROPS \<le> drops)
        then BUY
        else if js_ge m (of_int REVIEW_MULTIPLIER) \<and> rank < REVIEW_MAX_SALES_RANK
                \<and> REVIEW_MIN_DROPS_90 \<le> drops
        then REVIEW else REJECT)"
  using assms avgSalesRank_pos[OF assms(1)]
  by (simp_all add: evaluateBook_def Let_def)

lemma rejectReason_nonempty: "rejectReason fmt m rank drops \<noteq> []"
  by (simp add: rejectReason_def Let_def metricsStr_def)

lemma evaluateBook_reason_nonempty: "reason (evaluateBook fmt raw now b) \<noteq> []"
  by (simp add: evaluateBook_def Let_def rejectReason_nonempty metricsStr_def
      split: option.splits)

lemma js_ge_not_lt: "js_ge m k \<Longrightarrow> \<not> js_lt m k"
  by (cases m) auto

lemma js_less_ge: "js_less m1 m2 \<Longrightarrow> \<not> js_lt m1 k \<Longrightarrow> js_ge m2 k"
  by (cases m1; cases m2) auto

lemma evaluateBook_cases:
  obtains (unknown) "avgSalesRank (getSalesRankMetrics raw) = None"
  | (knockout) rank where "avgSalesRank (getSalesRankMetrics raw) = Some rank"
      "KNOCKOUT_MAX_SALES_RANK < rank"
  | (no_price) rank where "avgSalesRank (getSalesRankMetrics raw) = Some rank"
      "rank \<le> KNOCKOUT_MAX_SALES_RANK"
      "\<not> truthy (sellPrice (getAmazonPrices raw) (analyzeAmazonPresence raw now))"
  | (priced) rank s where "avgSalesRank (getSalesRankMetrics raw) = Some rank"
      "rank \<le> KNOCKOUT_MAX_SALES_RANK"
      "sellPrice (getAmazonPrices raw) (analyzeAmazonPresence raw now) = Some s" "s \<noteq> 0"
proof (cases "avgSalesRank (getSalesRankMetrics raw)")
  case None
  then show ?thesis by (rule unknown)
next
  case (Some rank)
  show ?thesis
  proof (cases "KNOCKOUT_MAX_SALES_RANK < rank")
    case True
    with Some show ?thesis by (rule knockout)
  next
    case False
    then have le: "rank \<le> KNOCKOUT_MAX_SALES_RANK" by simp
    show ?thesis
    proof (cases "truthy (sellPrice (getAmazonPrices raw) (analyzeAmazonPresence raw now))")
      case True
      then obtain s where "sellPrice (getAmazonPrices raw) (analyzeAmazonPresence raw now) = Some s"
        "s \<noteq> 0" by (auto simp: truthy_def split: option.splits)
      with Some le show ?thesis by (rule priced)
    next
      case False
      with Some le show ?thesis by (rule no_price)
    qed
  qed
qed

lemma evaluateBook_multiplier_Some:
  assumes "multiplier (evaluateBook fmt raw now b) = Some m"
  obtains rank s where "avgSalesRank (getSalesRankMetrics raw) = Some rank"
      "rank \<le> KNOCKOUT_MAX_SALES_RANK"
      "sellPrice (getAmazonPrices raw) (analyzeAmazonPresence raw now) = Some s" "s \<noteq> 0"
      "m = js_div s b"
proof (cases rule: evaluateBook_cases[where raw = raw and now = now])
  case unknown
  with assms show ?thesis by (simp add: evaluateBook_unknown_rank)
next
  case (knockout rank)
  with assms show ?thesis by (simp add: evaluateBook_rank_knockout)
next
  case (no_price rank)
  with assms show ?thesis by (simp add: evaluateBook_no_price)
next
  case (priced rank s)
  with assms that show ?thesis by (simp add: evaluateBook_priced)
qed

lemma evaluateBook_BUY:
  assumes "decision (evaluateBook fmt raw now b) = BUY"
  shows "\<exists>rank m. salesRank (evaluateBook fmt raw now b) = Some rank \<and> rank < BUY_MAX_SALES_RANK_CHEAP
     \<and> BUY_MIN_DROPS_90 \<le> salesRankDrops90 (evaluateBook fmt raw now b)
     \<and> multiplier (evaluateBook fmt raw now b) = Some m \<and> \<not> js_lt m (of_int REVIEW_MULTIPLIER)"
proof (cases rule: evaluateBook_cases[where raw = raw and now = now])
  case unknown
  with assms show ?thesis by (simp add: evaluateBook_unknown_rank)
next
  case (knockout rank)
  with assms show ?thesis by (simp add: evaluateBook_rank_knockout)
next
  case (no_price rank)
  with assms show ?thesis by (simp add: evaluateBook_no_price)
next
  case (priced rank s)
  from assms show ?thesis
    unfolding evaluateBook_priced[OF priced] evaluateBook_metrics priced(1) Let_def
    by (auto simp: BUY_MAX_SALES_RANK_CHEAP_def BUY_MAX_SALES_RANK_def BUY_MIN_DROPS_90_def
        BUY_HIGH_PROFIT_MAX_RANK_def BUY_HIGH_PROFIT_MIN_DROPS_def split: if_splits)
qed

lemma evaluateBook_not_REJECT:
  assumes "salesRank (evaluateBook fmt raw now b) = Some rank" "rank < REVIEW_MAX_SALES_RANK"
    and "REVIEW_MIN_DROPS_90 \<le> salesRankDrops90 (evaluateBook fmt raw now b)"
    and "multiplier (evaluateBook fmt raw now b) = Some m" "js_ge m (of_int REVIEW_MULTIPLIER)"
  shows "decision (evaluateBook fmt raw now b) \<noteq> REJECT"
proof -
  from assms(4) obtain rank' s where p: "avgSalesRank (getSalesRankMetrics raw) = Some rank'"
      "rank' \<le> KNOCKOUT_MAX_SALES_RANK"
      "sellPrice (getAmazonPrices raw) (analyzeAmazonPresence raw now) = Some s" "s \<noteq> 0"
      and m: "m = js_div s b"
    by (rule evaluateBook_multiplier_Some)
  from assms(1) p(1) have r: "rank' = rank" by (simp add: evaluateBook_metrics)
  have d: "REVIEW_MIN_DROPS_90 \<le> metrics_salesRankDrops90 (getSalesRankMetrics raw)"
    using assms(3) by (simp add: evaluateBook_metrics)
  then have d0: "metrics_salesRankDrops90 (getSalesRankMetrics raw) \<noteq> 0"
    by (simp add: REVIEW_MIN_DROPS_90_def)
  have g: "js_ge (js_div s b) (of_int REVIEW_MULTIPLIER)" using assms(5) m by simp
  then have l: "\<not> js_lt (js_div s b) (of_int REVIEW_MULTIPLIER)" by (rule js_ge_not_lt)
  show ?thesis
    unfolding evaluateBook_priced(3)[OF p] Let_def
    using d d0 g l assms(2) r by simp
qed


lemma getLastPrice_pos: "getLastPrice c = Some p \<Longrightarrow> 0 < p"
  by (auto simp: getLastPrice_def Let_def split: option.splits if_splits)

lemma avgPrice_pos: "avgPrice xs k = Some p \<Longrightarrow> 0 < p"
  by (auto simp: avgPrice_def split: option.splits if_splits)

lemma getAmazonPrices_pos:
  "fba (current (getAmazonPrices raw)) = Some p \<Longrightarrow> 0 < p"
  "newFBM (current (getAmazonPrices raw)) = Some p \<Longrightarrow> 0 < p"
  "used (current (getAmazonPrices raw)) = Some p \<Longrightarrow> 0 < p"
  "fba (avg180 (getAmazonPrices raw)) = Some p \<Longrightarrow> 0 < p"
  "newFBM (avg180 (getAmazonPrices raw)) = Some p \<Longrightarrow> 0 < p"
  "used (avg180 (getAmazonPrices raw)) = Some p \<Longrightarrow> 0 < p"
  by (auto simp: getAmazonPrices_def split: option.splits dest: getLastPrice_pos avgPrice_pos)

lemma js_or_firstNonNull:
  assumes "\<And>p. a = Some p \<Longrightarrow> 0 < p" "\<And>p. b = Some p \<Longrightarrow> 0 < p"
  shows "js_or (js_or a b) c = firstNonNull [a, b, c]"
  using assms by (cases a; cases b; cases c) (auto simp: js_or_def truthy_def)

lemma firstNonNull_pos:
  assumes "\<And>p. a = Some p \<Longrightarrow> 0 < p" "\<And>p. b = Some p \<Longrightarrow> 0 < p" "\<And>p. c = Some p \<Longrightarrow> 0 < p"
    and "firstNonNull [a, b, c] = Some q"
  shows "0 < (q :: rat)"
  using assms by (cases a; cases b; cases c) auto

lemma sellPrice_fallback:
  assumes "\<not> truthy (realisticPrice an)"
  shows "sellPrice (getAmazonPrices raw) an =
     (case (firstNonNull [fba (avg180 (getAmazonPrices raw)), newFBM (avg180 (getAmazonPrices raw)),
                          used (avg180 (getAmazonPrices raw))],
            firstNonNull [fba (current (getAmazonPrices raw)), newFBM (current (getAmazonPrices raw)),
                          used (current (getAmazonPrices raw))]) of
        (Some a, Some c) \<Rightarrow> Some (min a c)
      | (Some a, None) \<Rightarrow> Some a
      | (None, c) \<Rightarrow> c)"
proof -
  let ?p = "getAmazonPrices raw"
  let ?A = "firstNonNull [fba (avg180 ?p), newFBM (avg180 ?p), used (avg180 ?p)]"
  let ?C = "firstNonNull [fba (current ?p), newFBM (current ?p), used (current ?p)]"
  have A: "js_or (js_or (fba (avg180 ?p)) (newFBM (avg180 ?p))) (used (avg180 ?p)) = ?A"
    by (rule js_or_firstNonNull) (auto dest: getAmazonPrices_pos)
  have C: "js_or (js_or (fba (current ?p)) (newFBM (current ?p))) (used (current ?p)) = ?C"
    by (rule js_or_firstNonNull) (auto dest: getAmazonPrices_pos)
  have Ap: "\<And>q. ?A = Some q \<Longrightarrow> 0 < q"
    by (rule firstNonNull_pos[of "fba (avg180 ?p)" "newFBM (avg180 ?p)" "used (avg180 ?p)"])
       (auto dest: getAmazonPrices_pos)
  have Cp: "\<And>q. ?C = Some q \<Longrightarrow> 0 < q"
    by (rule firstNonNull_pos[of "fba (current ?p)" "newFBM (current ?p)" "used (current ?p)"])
       (auto dest: getAmazonPrices_pos)
  show ?thesis
    unfolding sellPrice_def Let_def A C using assms Ap Cp
    by (cases ?A; cases ?C) (auto simp: js_or_def truthy_def)
qed

lemma sellPrice_fallback_pos:
  assumes "\<not> truthy (realisticPrice an)" "sellPrice (getAmazonPrices raw) an = Some s"
  shows "0 < s"
proof -
  let ?p = "getAmazonPrices raw"
  let ?A = "firstNonNull [fba (avg180 ?p), newFBM (avg180 ?p), used (avg180 ?p)]"
  let ?C = "firstNonNull [fba (current ?p), newFBM (current ?p), used (current ?p)]"
  have Ap: "\<And>q. ?A = Some q \<Longrightarrow> 0 < q"
    by (rule firstNonNull_pos[of "fba (avg180 ?p)" "newFBM (avg180 ?p)" "used (avg180 ?p)"])
       (auto dest: getAmazonPrices_pos)
  have Cp: "\<And>q. ?C = Some q \<Longrightarrow> 0 < q"
    by (rule firstNonNull_pos[of "fba (current ?p)" "newFBM (current ?p)" "used (current ?p)"])
       (auto dest: getAmazonPrices_pos)
  from assms(2) Ap Cp show ?thesis
    unfolding sellPrice_fallback[OF assms(1)]
    by (cases ?A; cases ?C) (auto simp: min_def split: if_splits)
qed


text \<open>
  C1 (as the code has it). When the multiplier of a result is below the review threshold
  4, the decision is REJECT, whatever the profit, the rank and the drop count; and every
  BUY decision, the high-profit override included, comes with a multiplier that is not
  below 4. The override lifts the BUY multiplier 6, not the knockout at 4.
\<close>

theorem high_profit_override:
  "(multiplier (evaluateBook fmt raw now b) = Some m \<and> js_lt m (of_int REVIEW_MULTIPLIER) \<longrightarrow>
      decision (evaluateBook fmt raw now b) = REJECT)
   \<and> (decision (evaluateBook fmt raw now b) = BUY \<longrightarrow>
      (\<exists>m'. multiplier (evaluateBook fmt raw now b) = Some m'
            \<and> \<not> js_lt m' (of_int REVIEW_MULTIPLIER)))"
proof -
  have 1: "multiplier (evaluateBook fmt raw now b) = Some m \<and> js_lt m (of_int REVIEW_MULTIPLIER) \<longrightarrow>
      decision (evaluateBook fmt raw now b) = REJECT"
  proof
    assume h: "multiplier (evaluateBook fmt raw now b) = Some m \<and> js_lt m (of_int REVIEW_MULTIPLIER)"
    then obtain rank s where p: "avgSalesRank (getSalesRankMetrics raw) = Some rank"
        "rank \<le> KNOCKOUT_MAX_SALES_RANK"
        "sellPrice (getAmazonPrices raw) (analyzeAmazonPresence raw now) = Some s" "s \<noteq> 0"
        and m: "m = js_div s b"
      by (blast elim: evaluateBook_multiplier_Some)
    from h m have "js_lt (js_div s b) (of_int REVIEW_MULTIPLIER)" by simp
    then show "decision (evaluateBook fmt raw now b) = REJECT"
      unfolding evaluateBook_priced(3)[OF p] Let_def by simp
  qed
  have 2: "decision (evaluateBook fmt raw now b) = BUY \<longrightarrow>
      (\<exists>m'. multiplier (evaluateBook fmt raw now b) = Some m'
            \<and> \<not> js_lt m' (of_int REVIEW_MULTIPLIER))"
    using evaluateBook_BUY[of fmt raw now b] by blast
  from 1 2 show ?thesis by blast
qed

theorem high_profit_override_witness:
  "multiplier (evaluateBook enUS (statsOnly 23086 500000 (- 1) 12) exampleNow (11543 / 100)) = Some (Num 2)
   \<and> js_lt (Num 2) (of_int REVIEW_MULTIPLIER)
   \<and> decision (evaluateBook enUS (statsOnly 23086 500000 (- 1) 12) exampleNow (11543 / 100)) = REJECT
   \<and> decision (evaluateBook enUS (statsOnly 23086 500000 (- 1) 12) exampleNow (46172 / 1000)) = BUY
   \<and> multiplier (evaluateBook enUS (statsOnly 23086 500000 (- 1) 12) exampleNow (46172 / 1000)) = Some (Num 5)
   \<and> \<not> js_lt (Num 5) (of_int REVIEW_MULTIPLIER)
   \<and> \<not> js_ge (Num 5) (of_int BUY_MULTIPLIER)
   \<and> fbmProfit (evaluateBook enUS (statsOnly 23086 500000 (- 1) 12) exampleNow (46172 / 1000))
        = Some (144259 / 1000)
   \<and> salesRank (evaluateBook enUS (statsOnly 23086 500000 (- 1) 12) exampleNow (46172 / 1000)) = Some 500000
   \<and> salesRankDrops90 (evaluateBook enUS (statsOnly 23086 500000 (- 1) 12) exampleNow (46172 / 1000)) = 12"
proof -
  let ?raw = "statsOnly 23086 500000 (- 1) 12"
  have a1: "multiplier (evaluateBook enUS ?raw exampleNow (11543 / 100)) = Some (Num 2)" by code_simp
  have a2: "js_lt (Num 2) (of_int REVIEW_MULTIPLIER)" by code_simp
  from high_profit_override[of enUS ?raw exampleNow "11543 / 100" "Num 2"] a1 a2
  have A: "decision (evaluateBook enUS ?raw exampleNow (11543 / 100)) = REJECT" by blast
  have b1: "decision (evaluateBook enUS ?raw exampleNow (46172 / 1000)) = BUY" by code_simp
  have b2: "multiplier (evaluateBook enUS ?raw exampleNow (46172 / 1000)) = Some (Num 5)" by code_simp
  from high_profit_override[of enUS ?raw exampleNow "46172 / 1000" "Num 5"] b1 b2
  have B: "\<not> js_lt (Num 5) (of_int REVIEW_MULTIPLIER)" by auto
  have b3: "\<not> js_ge (Num 5) (of_int BUY_MULTIPLIER)" by code_simp
  have b4: "fbmProfit (evaluateBook enUS ?raw exampleNow (46172 / 1000)) = Some (144259 / 1000)"
    by code_simp
  have b5: "salesRank (evaluateBook enUS ?raw exampleNow (46172 / 1000)) = Some 500000" by code_simp
  have b6: "salesRankDrops90 (evaluateBook enUS ?raw exampleNow (46172 / 1000)) = 12" by code_simp
  from a1 a2 A b1 b2 B b3 b4 b5 b6 show ?thesis by blast
qed

text \<open>
  C1 as stated fails: no input with multiplier 2 is decided BUY.
\<close>

theorem high_profit_low_multiplier_counterexample:
  "\<not> (\<exists>fmt raw now b s.
        multiplier (evaluateBook fmt raw now b) = Some (Num 2)
        \<and> amazonPrice (evaluateBook fmt raw now b) = Some s \<and> calculateFBMProfit b s = 75
        \<and> salesRank (evaluateBook fmt raw now b) = Some 500000
        \<and> salesRankDrops90 (evaluateBook fmt raw now b) = 12
        \<and> decision (evaluateBook fmt raw now b) = BUY)"
proof
  assume "\<exists>fmt raw now b s.
        multiplier (evaluateBook fmt raw now b) = Some (Num 2)
        \<and> amazonPrice (evaluateBook fmt raw now b) = Some s \<and> calculateFBMProfit b s = 75
        \<and> salesRank (evaluateBook fmt raw now b) = Some 500000
        \<and> salesRankDrops90 (evaluateBook fmt raw now b) = 12
        \<and> decision (evaluateBook fmt raw now b) = BUY"
  then obtain fmt raw now b where m: "multiplier (evaluateBook fmt raw now b) = Some (Num 2)"
    and d: "decision (evaluateBook fmt raw now b) = BUY" by blast
  from evaluateBook_BUY[OF d] m have "\<not> js_lt (Num 2) (of_int REVIEW_MULTIPLIER)" by auto
  then show False by (simp add: REVIEW_MULTIPLIER_def)
qed

text \<open>The scenario itself, at a sell price of 230.86 and a buy price of 115.43 dollars
  (FBM profit 75.001).\<close>

lemma scenario_high_profit_multiplier_2:
  "evaluateBook enUS (statsOnly 23086 500000 (- 1) 12) exampleNow (11543 / 100)
     = \<lparr>decision = REJECT, reason = ''Multiplier 2.0x < 4x'', amazonPrice = Some (23086 / 100),
        fbaProfit = None, fbmProfit = None, salesRank = Some 500000, salesRankDrops90 = 12,
        asin = ''B000000001'', result_amazonFlag = None, weightLbs = Some (900 / (453592 / 1000)),
        binding = Some ''Hardcover'', multiplier = Some (Num 2)\<rparr>"
  by code_simp

text \<open>
  C2. For two runs of \<open>evaluateBook\<close> with equal average sales rank and equal drop count,
  if the first returns BUY and the multiplier of the second is strictly larger, the second
  does not return REJECT.
\<close>

theorem decision_monotone:
  assumes "salesRank (evaluateBook fmt1 raw1 now1 b1) = salesRank (evaluateBook fmt2 raw2 now2 b2)"
    and "salesRankDrops90 (evaluateBook fmt1 raw1 now1 b1) = salesRankDrops90 (evaluateBook fmt2 raw2 now2 b2)"
    and "decision (evaluateBook fmt1 raw1 now1 b1) = BUY"
    and "multiplier (evaluateBook fmt1 raw1 now1 b1) = Some m1"
    and "multiplier (evaluateBook fmt2 raw2 now2 b2) = Some m2"
    and "js_less m1 m2"
  shows "decision (evaluateBook fmt2 raw2 now2 b2) \<noteq> REJECT"
proof -
  from evaluateBook_BUY[OF assms(3)] assms(4)
  obtain rank where b: "salesRank (evaluateBook fmt1 raw1 now1 b1) = Some rank"
    "rank < BUY_MAX_SALES_RANK_CHEAP"
    "BUY_MIN_DROPS_90 \<le> salesRankDrops90 (evaluateBook fmt1 raw1 now1 b1)"
    "\<not> js_lt m1 (of_int REVIEW_MULTIPLIER)"
    by auto
  have 1: "salesRank (evaluateBook fmt2 raw2 now2 b2) = Some rank" using b(1) assms(1) by simp
  have 2: "rank < REVIEW_MAX_SALES_RANK"
    using b(2) by (simp add: BUY_MAX_SALES_RANK_CHEAP_def REVIEW_MAX_SALES_RANK_def)
  have 3: "REVIEW_MIN_DROPS_90 \<le> salesRankDrops90 (evaluateBook fmt2 raw2 now2 b2)"
    using b(3) assms(2) by (simp add: BUY_MIN_DROPS_90_def REVIEW_MIN_DROPS_90_def)
  have 4: "js_ge m2 (of_int REVIEW_MULTIPLIER)" using assms(6) b(4) by (rule js_less_ge)
  from 1 2 3 assms(5) 4 show ?thesis by (rule evaluateBook_not_REJECT)
qed


theorem decision_monotone_witness:
  "salesRank (evaluateBook enUS (statsOnly 23086 500000 (- 1) 12) exampleNow (46172 / 1000))
     = salesRank (evaluateBook enUS (statsOnly 2750 500000 (- 1) 12) exampleNow 5)
   \<and> salesRankDrops90 (evaluateBook enUS (statsOnly 23086 500000 (- 1) 12) exampleNow (46172 / 1000))
     = salesRankDrops90 (evaluateBook enUS (statsOnly 2750 500000 (- 1) 12) exampleNow 5)
   \<and> decision (evaluateBook enUS (statsOnly 23086 500000 (- 1) 12) exampleNow (46172 / 1000)) = BUY
   \<and> multiplier (evaluateBook enUS (statsOnly 23086 500000 (- 1) 12) exampleNow (46172 / 1000))
     = Some (Num 5)
   \<and> multiplier (evaluateBook enUS (statsOnly 2750 500000 (- 1) 12) exampleNow 5) = Some (Num (11 / 2))
   \<and> js_less (Num 5) (Num (11 / 2))
   \<and> decision (evaluateBook enUS (statsOnly 2750 500000 (- 1) 12) exampleNow 5) \<noteq> REJECT"
proof -
  let ?r1 = "evaluateBook enUS (statsOnly 23086 500000 (- 1) 12) exampleNow (46172 / 1000)"
  let ?r2 = "evaluateBook enUS (statsOnly 2750 500000 (- 1) 12) exampleNow 5"
  have h1: "salesRank ?r1 = salesRank ?r2" by code_simp
  have h2: "salesRankDrops90 ?r1 = salesRankDrops90 ?r2" by code_simp
  have h3: "decision ?r1 = BUY" by code_simp
  have h4: "multiplier ?r1 = Some (Num 5)" by code_simp
  have h5: "multiplier ?r2 = Some (Num (11 / 2))" by code_simp
  have h6: "js_less (Num 5) (Num (11 / 2))" by code_simp
  from decision_monotone[OF h1 h2 h3 h4 h5 h6] h1 h2 h3 h4 h5 h6 show ?thesis by blast
qed


text \<open>
  C6 (as the code has it). When the presence analysis yields no realistic price, the sell
  price is the smaller of two channel-priority picks, one over the 180-day averages and one
  over the current prices (each the first non-null of FBA, third-party new, used), or the
  one that exists when the other is null.
\<close>

theorem fallback_sell_price:
  assumes "avgSalesRank (getSalesRankMetrics raw) = Some rank" "rank \<le> KNOCKOUT_MAX_SALES_RANK"
    and "\<not> truthy (realisticPrice (analyzeAmazonPresence raw now))"
  shows "amazonPrice (evaluateBook fmt raw now b) =
     (case (firstNonNull [fba (avg180 (getAmazonPrices raw)), newFBM (avg180 (getAmazonPrices raw)),
                          used (avg180 (getAmazonPrices raw))],
            firstNonNull [fba (current (getAmazonPrices raw)), newFBM (current (getAmazonPrices raw)),
                          used (current (getAmazonPrices raw))]) of
        (Some a, Some c) \<Rightarrow> Some (min a c)
      | (Some a, None) \<Rightarrow> Some a
      | (None, c) \<Rightarrow> c)"
proof (cases "sellPrice (getAmazonPrices raw) (analyzeAmazonPresence raw now)")
  case None
  then have "\<not> truthy (sellPrice (getAmazonPrices raw) (analyzeAmazonPresence raw now))"
    by (simp add: truthy_def)
  from evaluateBook_no_price(4)[OF assms(1,2) this] None show ?thesis
    unfolding sellPrice_fallback[OF assms(3), symmetric] by simp
next
  case (Some s)
  with assms(3) have "s \<noteq> 0" using sellPrice_fallback_pos by fastforce
  from evaluateBook_priced(1)[OF assms(1,2) Some this] Some show ?thesis
    unfolding sellPrice_fallback[OF assms(3), symmetric] by simp
qed


theorem fallback_sell_price_witness:
  "avgSalesRank (getSalesRankMetrics
      (withHistory (statsOnly 2200 500000 3000 12) None None (Some [8300000, 5000]) None)) = Some 500000
   \<and> 500000 \<le> KNOCKOUT_MAX_SALES_RANK
   \<and> \<not> truthy (realisticPrice (analyzeAmazonPresence
         (withHistory (statsOnly 2200 500000 3000 12) None None (Some [8300000, 5000]) None) exampleNow))
   \<and> firstNonNull
        [fba (avg180 (getAmazonPrices (withHistory (statsOnly 2200 500000 3000 12) None None (Some [8300000, 5000]) None))),
         newFBM (avg180 (getAmazonPrices (withHistory (statsOnly 2200 500000 3000 12) None None (Some [8300000, 5000]) None))),
         used (avg180 (getAmazonPrices (withHistory (statsOnly 2200 500000 3000 12) None None (Some [8300000, 5000]) None)))]
      = Some 30
   \<and> firstNonNull
        [fba (current (getAmazonPrices (withHistory (statsOnly 2200 500000 3000 12) None None (Some [8300000, 5000]) None))),
         newFBM (current (getAmazonPrices (withHistory (statsOnly 2200 500000 3000 12) None None (Some [8300000, 5000]) None))),
         used (current (getAmazonPrices (withHistory (statsOnly 2200 500000 3000 12) None None (Some [8300000, 5000]) None)))]
      = Some 50
   \<and> amazonPrice (evaluateBook enUS
        (withHistory (statsOnly 2200 500000 3000 12) None None (Some [8300000, 5000]) None) exampleNow 5)
      = Some 30"
proof -
  let ?raw = "withHistory (statsOnly 2200 500000 3000 12) None None (Some [8300000, 5000]) None"
  have h1: "avgSalesRank (getSalesRankMetrics ?raw) = Some 500000" by code_simp
  have h2: "500000 \<le> KNOCKOUT_MAX_SALES_RANK" by code_simp
  have h3: "\<not> truthy (realisticPrice (analyzeAmazonPresence ?raw exampleNow))" by code_simp
  have a: "firstNonNull [fba (avg180 (getAmazonPrices ?raw)), newFBM (avg180 (getAmazonPrices ?raw)),
                         used (avg180 (getAmazonPrices ?raw))] = Some 30" by code_simp
  have c: "firstNonNull [fba (current (getAmazonPrices ?raw)), newFBM (current (getAmazonPrices ?raw)),
                         used (current (getAmazonPrices ?raw))] = Some 50" by code_simp
  from fallback_sell_price[OF h1 h2 h3, of enUS 5]
  have "amazonPrice (evaluateBook enUS ?raw exampleNow 5) = Some 30"
    unfolding a c by simp
  with h1 h2 h3 a c show ?thesis by blast
qed


text \<open>
  C6 as stated fails. With a current FBA price of 50, no FBA average and a third-party-new
  average of 20, the sell price is 20: a third-party price, although the FBA channel has a
  non-null price. With a current FBA price of 30 and an FBA average of 50 the sell price is
  30, not the pick over the averages.
\<close>

theorem fallback_sell_price_counterexample:
  "realisticPrice (analyzeAmazonPresence
      (withHistory (statsOnly 2000 500000 (- 1) 12) None None (Some [8300000, 5000]) None) exampleNow) = None
   \<and> fba (current (getAmazonPrices (withHistory (statsOnly 2000 500000 (- 1) 12) None None (Some [8300000, 5000]) None)))
      = Some 50
   \<and> firstNonNull
        [fba (current (getAmazonPrices (withHistory (statsOnly 2000 500000 (- 1) 12) None None (Some [8300000, 5000]) None))),
         newFBM (current (getAmazonPrices (withHistory (statsOnly 2000 500000 (- 1) 12) None None (Some [8300000, 5000]) None))),
         used (current (getAmazonPrices (withHistory (statsOnly 2000 500000 (- 1) 12) None None (Some [8300000, 5000]) None)))]
      = Some 50
   \<and> amazonPrice (evaluateBook enUS
        (withHistory (statsOnly 2000 500000 (- 1) 12) None None (Some [8300000, 5000]) None) exampleNow 5)
      = Some 20
   \<and> realisticPrice (analyzeAmazonPresence
      (withHistory (statsOnly 2200 500000 5000 12) None None (Some [8300000, 3000]) None) exampleNow) = None
   \<and> firstNonNull
        [fba (avg180 (getAmazonPrices (withHistory (statsOnly 2200 500000 5000 12) None None (Some [8300000, 3000]) None))),
         newFBM (avg180 (getAmazonPrices (withHistory (statsOnly 2200 500000 5000 12) None None (Some [8300000, 3000]) None))),
         used (avg180 (getAmazonPrices (withHistory (statsOnly 2200 500000 5000 12) None None (Some [8300000, 3000]) None)))]
      = Some 50
   \<and> amazonPrice (evaluateBook enUS
        (withHistory (statsOnly 2200 500000 5000 12) None None (Some [8300000, 3000]) None) exampleNow 5)
      = Some 30"
  by code_simp

text \<open>
  C7. \<open>evaluateBook\<close> is a total function of the snapshot and the buy price. When the
  average sales rank is absent, when there is no usable sell price, or when the drop count
  is zero, its result has decision REJECT and a non-empty reason.
\<close>

theorem missing_data_rejects:
  assumes "avgSalesRank (getSalesRankMetrics raw) = None
         \<or> \<not> truthy (sellPrice (getAmazonPrices raw) (analyzeAmazonPresence raw now))
         \<or> metrics_salesRankDrops90 (getSalesRankMetrics raw) = 0"
  shows "decision (evaluateBook fmt raw now b) = REJECT \<and> reason (evaluateBook fmt raw now b) \<noteq> []"
proof -
  have "decision (evaluateBook fmt raw now b) = REJECT"
  proof (cases rule: evaluateBook_cases[where raw = raw and now = now])
    case unknown
    then show ?thesis by (simp add: evaluateBook_unknown_rank)
  next
    case (knockout rank)
    then show ?thesis by (simp add: evaluateBook_rank_knockout)
  next
    case (no_price rank)
    then show ?thesis by (simp add: evaluateBook_no_price)
  next
    case (priced rank s)
    with assms have "metrics_salesRankDrops90 (getSalesRankMetrics raw) = 0"
      by (simp add: truthy_def)
    then show ?thesis unfolding evaluateBook_priced(3)[OF priced] by simp
  qed
  then show ?thesis by (simp add: evaluateBook_reason_nonempty)
qed

theorem missing_data_rejects_witness:
  "avgSalesRank (getSalesRankMetrics (statsOnly 2200 (- 1) (- 1) 12)) = None
   \<and> decision (evaluateBook enUS (statsOnly 2200 (- 1) (- 1) 12) exampleNow 5) = REJECT
   \<and> reason (evaluateBook enUS (statsOnly 2200 (- 1) (- 1) 12) exampleNow 5) \<noteq> []
   \<and> \<not> truthy (sellPrice (getAmazonPrices (statsOnly (- 1) 500000 (- 1) 12))
                  (analyzeAmazonPresence (statsOnly (- 1) 500000 (- 1) 12) exampleNow))
   \<and> decision (evaluateBook enUS (statsOnly (- 1) 500000 (- 1) 12) exampleNow 5) = REJECT
   \<and> reason (evaluateBook enUS (statsOnly (- 1) 500000 (- 1) 12) exampleNow 5) \<noteq> []
   \<and> metrics_salesRankDrops90 (getSalesRankMetrics (statsOnly 3000 500000 (- 1) 0)) = 0
   \<and> decision (evaluateBook enUS (statsOnly 3000 500000 (- 1) 0) exampleNow 5) = REJECT
   \<and> reason (evaluateBook enUS (statsOnly 3000 500000 (- 1) 0) exampleNow 5) \<noteq> []"
proof -
  have a: "avgSalesRank (getSalesRankMetrics (statsOnly 2200 (- 1) (- 1) 12)) = None" by code_simp
  have b: "\<not> truthy (sellPrice (getAmazonPrices (statsOnly (- 1) 500000 (- 1) 12))
                  (analyzeAmazonPresence (statsOnly (- 1) 500000 (- 1) 12) exampleNow))" by code_simp
  have c: "metrics_salesRankDrops90 (getSalesRankMetrics (statsOnly 3000 500000 (- 1) 0)) = 0"
    by code_simp
  from a have a': "avgSalesRank (getSalesRankMetrics (statsOnly 2200 (- 1) (- 1) 12)) = None
         \<or> \<not> truthy (sellPrice (getAmazonPrices (statsOnly 2200 (- 1) (- 1) 12))
                        (analyzeAmazonPresence (statsOnly 2200 (- 1) (- 1) 12) exampleNow))
         \<or> metrics_salesRankDrops90 (getSalesRankMetrics (statsOnly 2200 (- 1) (- 1) 12)) = 0" by blast
  from b have b': "avgSalesRank (getSalesRankMetrics (statsOnly (- 1) 500000 (- 1) 12)) = None
         \<or> \<not> truthy (sellPrice (getAmazonPrices (statsOnly (- 1) 500000 (- 1) 12))
                        (analyzeAmazonPresence (statsOnly (- 1) 500000 (- 1) 12) exampleNow))
         \<or> metrics_salesRankDrops90 (getSalesRankMetrics (statsOnly (- 1) 500000 (- 1) 12)) = 0" by blast
  from c have c': "avgSalesRank (getSalesRankMetrics (statsOnly 3000 500000 (- 1) 0)) = None
         \<or> \<not> truthy (sellPrice (getAmazonPrices (statsOnly 3000 500000 (- 1) 0))
                        (analyzeAmazonPresence (statsOnly 3000 500000 (- 1) 0) exampleNow))
         \<or> metrics_salesRankDrops90 (getSalesRankMetrics (statsOnly 3000 500000 (- 1) 0)) = 0" by blast
  from missing_data_rejects[OF a', of enUS 5] missing_data_rejects[OF b', of enUS 5]
    missing_data_rejects[OF c', of enUS 5] a b c
  show ?thesis by blast
qed


text \<open>The reasons at the three inputs of the witness.\<close>

lemma missing_data_reasons:
  "reason (evaluateBook enUS (statsOnly 2200 (- 1) (- 1) 12) exampleNow 5) = ''Unknown sales rank''"
  "reason (evaluateBook enUS (statsOnly (- 1) 500000 (- 1) 12) exampleNow 5) = ''No Amazon price data''"
  "reason (evaluateBook enUS (statsOnly 3000 500000 (- 1) 0) exampleNow 5)
     = ''No sales in 90 days (drops90 = 0)''"
  by code_simp+


end
